theory Spec2Isabelle
  imports Complex_Main
begin

section \<open>llmsnap: the metrics monitor, the TTL monitor and the model configuration\<close>

text \<open>
  A shallow embedding of \<^verbatim>\<open>proxy/metrics_monitor.go\<close>, of the \<^verbatim>\<open>UnloadAfter\<close>
  goroutine of \<^verbatim>\<open>Process.start\<close> and of \<^verbatim>\<open>ModelConfig.UnmarshalYAML\<close>.

  Conventions. A Go \<^verbatim>\<open>[]byte\<close> and a Go \<^verbatim>\<open>string\<close> are a \<open>string\<close> (a list of
  8-bit characters). A Go \<^verbatim>\<open>int\<close> is an \<open>int\<close>; where the code increments a counter the
  64-bit wrap-around is written out (\<open>wrap_int\<close>). A \<^verbatim>\<open>float64\<close> is a value of a type
  variable \<open>'f\<close>; the arithmetic the code performs on it is passed as a record of operations
  (\<open>float64_ops\<close>), so that every theorem holds for whatever these operations compute. A
  \<^verbatim>\<open>time.Time\<close> and a \<^verbatim>\<open>time.Duration\<close> are a number of nanoseconds. A panic is the
  left injection of a sum type. The mutex of the monitor makes each method atomic, so a method is
  a function from the state before to the state after.
\<close>

subsection \<open>TokenMetrics and the bounded collection\<close>

record 'f TokenMetrics =
  ID :: int
  Timestamp :: int
  Model :: string
  CachedTokens :: int
  InputTokens :: int
  OutputTokens :: int
  PromptPerSecond :: 'f
  TokensPerSecond :: 'f
  DurationMs :: int

datatype 'f event = TokenMetricsEvent "'f TokenMetrics"

datatype panic = SliceBoundsOutOfRange int int

record 'f metricsMonitor =
  metrics :: "'f TokenMetrics list"
  maxMetrics :: int
  nextID :: int

definition newMetricsMonitor :: "int \<Rightarrow> 'f metricsMonitor" where
  "newMetricsMonitor maxMetrics' = \<lparr>metrics = [], maxMetrics = maxMetrics', nextID = 0\<rparr>"

text \<open>The value of a 64-bit signed integer after an arithmetic operation whose exact result is \<open>x\<close>.\<close>

definition wrap_int :: "int \<Rightarrow> int" where
  "wrap_int x = (x + 2 ^ 63) mod 2 ^ 64 - 2 ^ 63"

text \<open>
  The slice expression \<^verbatim>\<open>s[low:]\<close>: it panics unless \<open>0 \<le> low \<le> len s\<close>.
\<close>

definition slice_from :: "'a list \<Rightarrow> int \<Rightarrow> panic + 'a list" where
  "slice_from s low =
     (if low < 0 \<or> int (length s) < low then Inl (SliceBoundsOutOfRange low (int (length s)))
      else Inr (drop (nat low) s))"

text \<open>
  \<^verbatim>\<open>addMetrics\<close>: the metric gets the next ID, is appended, the collection is cut to its last
  \<open>maxMetrics\<close> elements, and the metric is emitted as an event.
\<close>

definition addMetrics ::
  "'f metricsMonitor \<Rightarrow> 'f TokenMetrics \<Rightarrow> panic + ('f metricsMonitor \<times> 'f event)" where
  "addMetrics mp metric0 =
     (let metric = metric0\<lparr>ID := nextID mp\<rparr>;
          mp1 = mp\<lparr>nextID := wrap_int (nextID mp + 1)\<rparr>;
          mp2 = mp1\<lparr>metrics := metrics mp1 @ [metric]\<rparr>
      in if int (length (metrics mp2)) > maxMetrics mp2 then
           (case slice_from (metrics mp2) (int (length (metrics mp2)) - maxMetrics mp2) of
              Inl p \<Rightarrow> Inl p
            | Inr s \<Rightarrow> Inr (mp2\<lparr>metrics := s\<rparr>, TokenMetricsEvent metric))
         else Inr (mp2, TokenMetricsEvent metric))"

definition getMetrics :: "'f metricsMonitor \<Rightarrow> 'f TokenMetrics list" where
  "getMetrics mp = metrics mp"

text \<open>A sequence of \<^verbatim>\<open>addMetrics\<close> calls; a panic ends it.\<close>

fun addMetrics_seq ::
  "'f metricsMonitor \<Rightarrow> 'f TokenMetrics list \<Rightarrow> panic + 'f metricsMonitor" where
  "addMetrics_seq mp [] = Inr mp"
| "addMetrics_seq mp (m # ms) =
     (case addMetrics mp m of Inl p \<Rightarrow> Inl p | Inr (mp', _) \<Rightarrow> addMetrics_seq mp' ms)"

text \<open>The inserted records with the IDs \<open>n\<close>, \<open>n + 1\<close>, ... in insertion order.\<close>

fun numbered :: "nat \<Rightarrow> 'f TokenMetrics list \<Rightarrow> 'f TokenMetrics list" where
  "numbered n [] = []"
| "numbered n (m # ms) = m\<lparr>ID := int n\<rparr> # numbered (Suc n) ms"

text \<open>The last \<open>k\<close> elements of a list (all of it when it is shorter).\<close>

definition last_n :: "nat \<Rightarrow> 'a list \<Rightarrow> 'a list" where
  "last_n k xs = drop (length xs - k) xs"

subsection \<open>Library values: float64, time, gjson\<close>

text \<open>
  The operations on \<^verbatim>\<open>float64\<close> that \<^verbatim>\<open>parseMetrics\<close> uses. \<open>of_int64 n\<close> is the
  conversion \<^verbatim>\<open>float64(n)\<close>, and also the constants \<^verbatim>\<open>-1.0\<close> and \<^verbatim>\<open>1000.0\<close>;
  \<open>to_int x\<close> is the conversion \<^verbatim>\<open>int(x)\<close>. The comparison of a \<^verbatim>\<open>float64\<close>
  with the constant \<^verbatim>\<open>-1.0\<close> is equality of values.
\<close>

record 'f float64_ops =
  of_int64 :: "int \<Rightarrow> 'f"
  fadd :: "'f \<Rightarrow> 'f \<Rightarrow> 'f"
  fdiv :: "'f \<Rightarrow> 'f \<Rightarrow> 'f"
  to_int :: "'f \<Rightarrow> int"

text \<open>Integer division of Go: the quotient is truncated toward zero.\<close>

definition quo :: "int \<Rightarrow> int \<Rightarrow> int" where
  "quo a b = sgn a * sgn b * (\<bar>a\<bar> div \<bar>b\<bar>)"

definition time_Since :: "int \<Rightarrow> int \<Rightarrow> int" where
  "time_Since now t = now - t"

definition Milliseconds :: "int \<Rightarrow> int" where
  "Milliseconds d = quo d 1000000"

text \<open>
  \<^verbatim>\<open>gjson\<close> is a library outside the repository. Its \<^verbatim>\<open>Result\<close> is an optional JSON
  value of a type \<open>'j\<close>: the zero \<^verbatim>\<open>Result{}\<close>, which is also what \<^verbatim>\<open>Get\<close> returns
  for a path that is not there, is \<open>None\<close>; it does not exist, has no members, and reads as \<open>0\<close>
  (\<open>Int_val\<close> and \<open>Float_val\<close> are the methods \<^verbatim>\<open>Int\<close> and \<^verbatim>\<open>Float\<close>).
  What the library makes of bytes and of a value that exists is a parameter: the record
  \<open>gjson\<close>.
\<close>

record ('j, 'f) gjson =
  ValidBytes :: "string \<Rightarrow> bool"
  ParseBytes :: "string \<Rightarrow> 'j option"
  member :: "'j \<Rightarrow> string \<Rightarrow> 'j option"
  intOf :: "'j \<Rightarrow> int"
  floatOf :: "'j \<Rightarrow> 'f"

definition Exists :: "'j option \<Rightarrow> bool" where
  "Exists r = (r \<noteq> None)"

definition Get :: "('j, 'f) gjson \<Rightarrow> 'j option \<Rightarrow> string \<Rightarrow> 'j option" where
  "Get G r path = (case r of None \<Rightarrow> None | Some j \<Rightarrow> member G j path)"

definition Int_val :: "('j, 'f) gjson \<Rightarrow> 'j option \<Rightarrow> int" where
  "Int_val G r = (case r of None \<Rightarrow> 0 | Some j \<Rightarrow> intOf G j)"

definition Float_val :: "'f float64_ops \<Rightarrow> ('j, 'f) gjson \<Rightarrow> 'j option \<Rightarrow> 'f" where
  "Float_val F G r = (case r of None \<Rightarrow> of_int64 F 0 | Some j \<Rightarrow> floatOf G j)"

datatype error = Error string

subsection \<open>parseMetrics\<close>

text \<open>
  \<^verbatim>\<open>parseMetrics(modelID, start, usage, timings)\<close>. \<open>now\<close> is the clock when it runs.
  The assignments of the source are the bindings of the \<open>let\<close>, in the same order; a later
  binding of a name hides the earlier one. The metric is returned with the zero ID.
\<close>

definition parseMetrics ::
  "'f float64_ops \<Rightarrow> ('j, 'f) gjson \<Rightarrow> string \<Rightarrow> int \<Rightarrow> 'j option \<Rightarrow> 'j option \<Rightarrow> int
     \<Rightarrow> error + 'f TokenMetrics" where
  "parseMetrics F G modelID start usage timings now =
     (let cachedTokens = - 1;
          outputTokens = 0;
          inputTokens = 0;
          tokensPerSecond = of_int64 F (- 1);
          promptPerSecond = of_int64 F (- 1);
          durationMs = Milliseconds (time_Since now start);
          inputTokens =
            (if Exists usage then
               (if Exists (Get G usage ''prompt_tokens'') then Int_val G (Get G usage ''prompt_tokens'')
                else if Exists (Get G usage ''input_tokens'') then Int_val G (Get G usage ''input_tokens'')
                else inputTokens)
             else inputTokens);
          outputTokens =
            (if Exists usage then
               (if Exists (Get G usage ''completion_tokens'') then Int_val G (Get G usage ''completion_tokens'')
                else if Exists (Get G usage ''output_tokens'') then Int_val G (Get G usage ''output_tokens'')
                else outputTokens)
             else outputTokens);
          cachedTokens =
            (if Exists usage \<and> Exists (Get G usage ''cache_read_input_tokens'')
             then Int_val G (Get G usage ''cache_read_input_tokens'') else cachedTokens);
          inputTokens = (if Exists timings then Int_val G (Get G timings ''prompt_n'') else inputTokens);
          outputTokens = (if Exists timings then Int_val G (Get G timings ''predicted_n'') else outputTokens);
          promptPerSecond =
            (if Exists timings then Float_val F G (Get G timings ''prompt_per_second'') else promptPerSecond);
          tokensPerSecond =
            (if Exists timings then Float_val F G (Get G timings ''predicted_per_second'') else tokensPerSecond);
          durationMs =
            (if Exists timings
             then to_int F (fadd F (Float_val F G (Get G timings ''prompt_ms''))
                                   (Float_val F G (Get G timings ''predicted_ms'')))
             else durationMs);
          cachedTokens =
            (if Exists timings \<and> Exists (Get G timings ''cache_n'')
             then Int_val G (Get G timings ''cache_n'') else cachedTokens);
          tokensPerSecond =
            (if tokensPerSecond = of_int64 F (- 1) \<and> outputTokens > 0 \<and> durationMs > 0
             then fdiv F (of_int64 F outputTokens) (fdiv F (of_int64 F durationMs) (of_int64 F 1000))
             else tokensPerSecond)
      in Inr \<lparr>ID = 0, Timestamp = now, Model = modelID, CachedTokens = cachedTokens,
              InputTokens = inputTokens, OutputTokens = outputTokens,
              PromptPerSecond = promptPerSecond, TokensPerSecond = tokensPerSecond,
              DurationMs = durationMs\<rparr>)"

subsection \<open>The response writer and the body copier\<close>

text \<open>
  \<^verbatim>\<open>gin.ResponseWriter\<close>, outside the repository: the status (200 until a header is
  written), the header, the bytes sent to the client, whether anything was written, and the
  error every \<^verbatim>\<open>Write\<close> to the connection returns, if it is broken. A \<^verbatim>\<open>time.Time\<close> is the
  number of nanoseconds since the zero time.
\<close>

record gin_ResponseWriter =
  rw_status :: int
  rw_header :: "string \<rightharpoonup> string"
  rw_sent :: string
  rw_written :: bool
  rw_broken :: "error option"

definition rw_Write :: "gin_ResponseWriter \<Rightarrow> string \<Rightarrow> gin_ResponseWriter \<times> int \<times> error option" where
  "rw_Write w b =
     (case rw_broken w of
        Some e \<Rightarrow> (w, 0, Some e)
      | None \<Rightarrow> (w\<lparr>rw_sent := rw_sent w @ b, rw_written := True\<rparr>, int (length b), None))"

definition rw_WriteHeader :: "gin_ResponseWriter \<Rightarrow> int \<Rightarrow> gin_ResponseWriter" where
  "rw_WriteHeader w code =
     (if code > 0 \<and> rw_status w \<noteq> code
      then (if rw_written w then w else w\<lparr>rw_status := code\<rparr>)
      else w)"

definition Header_Get :: "(string \<rightharpoonup> string) \<Rightarrow> string \<Rightarrow> string" where
  "Header_Get h key = (case h key of None \<Rightarrow> [] | Some v \<Rightarrow> v)"

definition Header_Set :: "(string \<rightharpoonup> string) \<Rightarrow> string \<Rightarrow> string \<Rightarrow> (string \<rightharpoonup> string)" where
  "Header_Set h key v = h(key \<mapsto> v)"

definition IsZero :: "int \<Rightarrow> bool" where
  "IsZero t = (t = 0)"

text \<open>
  \<^verbatim>\<open>responseBodyCopier\<close>. The field \<^verbatim>\<open>tee\<close> is \<^verbatim>\<open>io.MultiWriter(w, bodyBuffer)\<close>: it
  holds the embedded writer and the buffer themselves, so a write through it changes the fields
  \<open>ResponseWriter\<close> and \<open>body\<close>.
\<close>

record responseBodyCopier =
  ResponseWriter :: gin_ResponseWriter
  body :: string
  start :: int
  requestTime :: int

definition newBodyCopier :: "gin_ResponseWriter \<Rightarrow> int \<Rightarrow> responseBodyCopier" where
  "newBodyCopier w requestTime' =
     \<lparr>ResponseWriter = w, body = [], start = 0, requestTime = requestTime'\<rparr>"

definition ErrShortWrite :: error where
  "ErrShortWrite = Error ''short write''"

text \<open>
  \<^verbatim>\<open>tee.Write(b)\<close>: the multi-writer writes \<open>b\<close> to the response writer, stops at an error or
  a short write, and then writes \<open>b\<close> to the buffer, which takes all of it.
\<close>

definition tee_Write :: "responseBodyCopier \<Rightarrow> string \<Rightarrow> responseBodyCopier \<times> int \<times> error option" where
  "tee_Write w b =
     (case rw_Write (ResponseWriter w) b of
        (rw, n, Some err) \<Rightarrow> (w\<lparr>ResponseWriter := rw\<rparr>, n, Some err)
      | (rw, n, None) \<Rightarrow>
          if n \<noteq> int (length b) then (w\<lparr>ResponseWriter := rw\<rparr>, n, Some ErrShortWrite)
          else (w\<lparr>ResponseWriter := rw, body := body w @ b\<rparr>, int (length b), None))"

definition Write :: "responseBodyCopier \<Rightarrow> int \<Rightarrow> string \<Rightarrow> responseBodyCopier \<times> int \<times> error option" where
  "Write w now b =
     (let w = (if IsZero (start w) then w\<lparr>start := now\<rparr> else w)
      in tee_Write w b)"

definition WriteHeader :: "responseBodyCopier \<Rightarrow> int \<Rightarrow> responseBodyCopier" where
  "WriteHeader w statusCode = w\<lparr>ResponseWriter := rw_WriteHeader (ResponseWriter w) statusCode\<rparr>"

definition Header :: "responseBodyCopier \<Rightarrow> (string \<rightharpoonup> string)" where
  "Header w = rw_header (ResponseWriter w)"

definition Status :: "responseBodyCopier \<Rightarrow> int" where
  "Status w = rw_status (ResponseWriter w)"

definition StartTime :: "responseBodyCopier \<Rightarrow> int" where
  "StartTime w = start w"

definition RequestTime :: "responseBodyCopier \<Rightarrow> int" where
  "RequestTime w = requestTime w"

text \<open>A sequence of writes, each with the clock at the time; the results of the calls are dropped.\<close>

fun Write_seq :: "responseBodyCopier \<Rightarrow> (int \<times> string) list \<Rightarrow> responseBodyCopier" where
  "Write_seq w [] = w"
| "Write_seq w ((now, b) # bs) = Write_seq (fst (Write w now b)) bs"

subsection \<open>Bytes and strings\<close>

definition HasPrefix :: "string \<Rightarrow> string \<Rightarrow> bool" where
  "HasPrefix s pre = (length s \<ge> length pre \<and> take (length pre) s = pre)"

fun Contains :: "string \<Rightarrow> string \<Rightarrow> bool" where
  "Contains [] substr = (substr = [])"
| "Contains (c # cs) substr = (HasPrefix (c # cs) substr \<or> Contains cs substr)"

text \<open>\<^verbatim>\<open>bytes.LastIndexByte\<close>: the index of the last \<open>c\<close> in \<open>s\<close>, or \<open>-1\<close>.\<close>

fun LastIndexByte :: "string \<Rightarrow> char \<Rightarrow> int" where
  "LastIndexByte [] c = - 1"
| "LastIndexByte (x # xs) c =
     (let r = LastIndexByte xs c
      in if r \<noteq> - 1 then r + 1 else if x = c then 0 else - 1)"

text \<open>The slice \<^verbatim>\<open>s[lo:hi]\<close> for \<open>0 \<le> lo \<le> hi \<le> len s\<close>.\<close>

definition slice :: "string \<Rightarrow> int \<Rightarrow> int \<Rightarrow> string" where
  "slice s lo hi = drop (nat lo) (take (nat hi) s)"

definition newline :: char where
  "newline = CHR 0x0A"

subsection \<open>processStreamingResponse\<close>

text \<open>
  The loop of \<^verbatim>\<open>processStreamingResponse\<close>, with its variables \<open>pos\<close> and
  \<open>foundValidJSON\<close>, and what follows it. \<^verbatim>\<open>bytes.TrimSpace\<close> is a parameter.
\<close>

function (sequential) scan_back ::
  "'f float64_ops \<Rightarrow> ('j, 'f) gjson \<Rightarrow> (string \<Rightarrow> string) \<Rightarrow> string \<Rightarrow> int \<Rightarrow> string \<Rightarrow> int
     \<Rightarrow> int \<Rightarrow> bool \<Rightarrow> error + 'f TokenMetrics" where
  "scan_back F G TrimSpace modelID start' body' now pos foundValidJSON =
     (if pos > 0 then
        (let lineStart = LastIndexByte (slice body' 0 pos) newline;
             lineStart = (if lineStart = - 1 then 0 else lineStart + 1);
             line = TrimSpace (slice body' lineStart pos);
             pos' = lineStart - 1
         in if length line = 0 then scan_back F G TrimSpace modelID start' body' now pos' foundValidJSON
            else if \<not> HasPrefix line ''data:''
              then scan_back F G TrimSpace modelID start' body' now pos' foundValidJSON
            else
              (let data = TrimSpace (drop (length ''data:'') line)
               in if length data = 0
                    then scan_back F G TrimSpace modelID start' body' now pos' foundValidJSON
                  else if data = ''[DONE]''
                    then scan_back F G TrimSpace modelID start' body' now pos' foundValidJSON
                  else if ValidBytes G data then
                    (let parsed = ParseBytes G data;
                         usage = Get G parsed ''usage'';
                         timings = Get G parsed ''timings''
                     in if Exists usage \<or> Exists timings
                        then parseMetrics F G modelID start' usage timings now
                        else scan_back F G TrimSpace modelID start' body' now pos' True)
                  else scan_back F G TrimSpace modelID start' body' now pos' foundValidJSON))
      else if foundValidJSON then parseMetrics F G modelID start' None None now
      else Inl (Error ''no valid JSON data found in stream''))"
  by pat_completeness auto

lemma LastIndexByte_bounds: "- 1 \<le> LastIndexByte s c \<and> LastIndexByte s c < int (length s)"
  by (induction s) (auto simp: Let_def)

lemma LastIndexByte_slice_less: "0 < pos \<Longrightarrow> LastIndexByte (slice b 0 pos) c < pos"
  using LastIndexByte_bounds [of "slice b 0 pos" c]
  by (auto simp: slice_def)

termination scan_back
  by (relation "measure (\<lambda>(F, G, T, m, s, b, n, pos, f). nat pos)")
     (auto simp del: LastIndexByte.simps simp add: LastIndexByte_slice_less)

definition processStreamingResponse ::
  "'f float64_ops \<Rightarrow> ('j, 'f) gjson \<Rightarrow> (string \<Rightarrow> string) \<Rightarrow> string \<Rightarrow> int \<Rightarrow> string \<Rightarrow> int
     \<Rightarrow> error + 'f TokenMetrics" where
  "processStreamingResponse F G TrimSpace modelID start' body' now =
     (let pos = int (length body');
          foundValidJSON = False
      in scan_back F G TrimSpace modelID start' body' now pos foundValidJSON)"

subsection \<open>wrapHandler\<close>

text \<open>
  What a call leaves behind besides its result: the lines given to the logger and the events
  emitted on the bus, in order. A log line is the format with its arguments.
\<close>

datatype arg = AInt int | AStr string | AErr error

datatype logline = Warn string | Warnf string "arg list"

datatype 'f effect = Log logline | Emit "'f event"

record Request =
  URL_Path :: string

record 'f wrapped =
  ret :: "error option"
  monitor :: "'f metricsMonitor"
  response :: responseBodyCopier
  effects :: "'f effect list"

text \<open>
  \<^verbatim>\<open>wrapHandler(modelID, writer, request, next)\<close> on the monitor \<open>mp\<close>. The handler \<open>next\<close>
  is a function that returns the recorder as it leaves it and its error, if any. \<open>t0\<close> is
  the clock on entry and \<open>t1\<close> the clock when the metrics are parsed. The result is a panic
  (of \<^verbatim>\<open>addMetrics\<close>) or the returned error with the monitor, the recorder and the effects.
\<close>

definition wrapHandler ::
  "'f float64_ops \<Rightarrow> ('j, 'f) gjson \<Rightarrow> (string \<Rightarrow> string) \<Rightarrow> 'f metricsMonitor \<Rightarrow> string
     \<Rightarrow> gin_ResponseWriter \<Rightarrow> 'r Request_scheme
     \<Rightarrow> (string \<Rightarrow> responseBodyCopier \<Rightarrow> 'r Request_scheme \<Rightarrow> responseBodyCopier \<times> error option)
     \<Rightarrow> int \<Rightarrow> int \<Rightarrow> panic + 'f wrapped" where
  "wrapHandler F G TrimSpace mp modelID writer request next t0 t1 =
     (let requestStartTime = t0;
          recorder = newBodyCopier writer requestStartTime
      in case next modelID recorder request of
           (recorder, Some err) \<Rightarrow>
             Inr \<lparr>ret = Some err, monitor = mp, response = recorder, effects = []\<rparr>
         | (recorder, None) \<Rightarrow>
             if Status recorder \<noteq> 200 then
               (let errorMsg = body recorder
                in Inr \<lparr>ret = None, monitor = mp, response = recorder,
                     effects = [Log (Warnf ''metrics skipped, HTTP status=%d, path=%s, error=%s''
                                  [AInt (Status recorder), AStr (URL_Path request), AStr errorMsg])]\<rparr>)
             else
               (let body' = body recorder
                in if length body' = 0 then
                     Inr \<lparr>ret = None, monitor = mp, response = recorder,
                          effects = [Log (Warn ''metrics skipped, empty body'')]\<rparr>
                   else if Contains (Header_Get (Header recorder) ''Content-Type'') ''text/event-stream'' then
                     (case processStreamingResponse F G TrimSpace modelID (RequestTime recorder) body' t1 of
                        Inl err \<Rightarrow>
                          Inr \<lparr>ret = None, monitor = mp, response = recorder,
                               effects = [Log (Warnf ''error processing streaming response: %v, path=%s''
                                            [AErr err, AStr (URL_Path request)])]\<rparr>
                      | Inr tm \<Rightarrow>
                          (case addMetrics mp tm of
                             Inl p \<Rightarrow> Inl p
                           | Inr (mp', ev) \<Rightarrow>
                               Inr \<lparr>ret = None, monitor = mp', response = recorder, effects = [Emit ev]\<rparr>))
                   else if ValidBytes G body' then
                     (let parsed = ParseBytes G body';
                          usage = Get G parsed ''usage'';
                          timings = Get G parsed ''timings''
                      in case parseMetrics F G modelID (RequestTime recorder) usage timings t1 of
                           Inl err \<Rightarrow>
                             Inr \<lparr>ret = None, monitor = mp, response = recorder,
                                  effects = [Log (Warnf ''error parsing metrics: %v, path=%s''
                                               [AErr err, AStr (URL_Path request)])]\<rparr>
                         | Inr tm \<Rightarrow>
                             (case addMetrics mp tm of
                                Inl p \<Rightarrow> Inl p
                              | Inr (mp', ev) \<Rightarrow>
                                  Inr \<lparr>ret = None, monitor = mp', response = recorder, effects = [Emit ev]\<rparr>))
                   else
                     Inr \<lparr>ret = None, monitor = mp, response = recorder,
                          effects = [Log (Warnf ''metrics skipped, invalid JSON in response body path=%s''
                                       [AStr (URL_Path request)])]\<rparr>))"

subsection \<open>The event stream as the specification describes it\<close>

text \<open>
  The lines of a body are the pieces between its newlines. A line is read without the white
  space around it; the payload of a line prefixed by \<open>data:\<close> is what follows the prefix, again
  without the white space around it.
\<close>

fun splitLines :: "string \<Rightarrow> string list" where
  "splitLines [] = [[]]"
| "splitLines (c # cs) =
     (if c = newline then [] # splitLines cs
      else (case splitLines cs of [] \<Rightarrow> [[c]] | l # ls \<Rightarrow> (c # l) # ls))"

definition data_payload :: "(string \<Rightarrow> string) \<Rightarrow> string \<Rightarrow> string option" where
  "data_payload TrimSpace l =
     (let line = TrimSpace l
      in if HasPrefix line ''data:'' then Some (TrimSpace (drop (length ''data:'') line)) else None)"

text \<open>
  The payloads of the data lines that are not empty, not \<open>[DONE]\<close> and valid JSON, from the
  last line of the body to the first.
\<close>

definition spec_json_payloads :: "('j, 'f) gjson \<Rightarrow> (string \<Rightarrow> string) \<Rightarrow> string list \<Rightarrow> string list" where
  "spec_json_payloads G TrimSpace ls =
     filter (\<lambda>d. d \<noteq> [] \<and> d \<noteq> ''[DONE]'' \<and> ValidBytes G d)
       (List.map_filter (data_payload TrimSpace) ls)"

definition has_usage_or_timings :: "('j, 'f) gjson \<Rightarrow> string \<Rightarrow> bool" where
  "has_usage_or_timings G d =
     (Exists (Get G (ParseBytes G d) ''usage'') \<or> Exists (Get G (ParseBytes G d) ''timings''))"

text \<open>
  The metric of an event stream in the words of the specification: that of the last valid
  payload with usage or timings; without one, a metric of an absent usage and absent timings if
  there is a valid payload at all, and otherwise none.
\<close>

definition spec_stream_metric ::
  "'f float64_ops \<Rightarrow> ('j, 'f) gjson \<Rightarrow> (string \<Rightarrow> string) \<Rightarrow> string \<Rightarrow> int \<Rightarrow> string \<Rightarrow> int
     \<Rightarrow> error + 'f TokenMetrics" where
  "spec_stream_metric F G TrimSpace modelID start' body' now =
     (let payloads = spec_json_payloads G TrimSpace (rev (splitLines body'))
      in case find (has_usage_or_timings G) payloads of
           Some d \<Rightarrow>
             parseMetrics F G modelID start' (Get G (ParseBytes G d) ''usage'')
               (Get G (ParseBytes G d) ''timings'') now
         | None \<Rightarrow>
             if payloads \<noteq> [] then parseMetrics F G modelID start' None None now
             else Inl (Error ''no valid JSON data found in stream''))"

text \<open>
  The same with the loop's flag: what the scan returns once the payloads \<open>payloads\<close> are
  still to be read and \<open>foundValidJSON\<close> tells whether a valid payload was read before.
\<close>

definition stream_result ::
  "'f float64_ops \<Rightarrow> ('j, 'f) gjson \<Rightarrow> string \<Rightarrow> int \<Rightarrow> int \<Rightarrow> string list \<Rightarrow> bool
     \<Rightarrow> error + 'f TokenMetrics" where
  "stream_result F G modelID start' now payloads foundValidJSON =
     (case find (has_usage_or_timings G) payloads of
        Some d \<Rightarrow>
          parseMetrics F G modelID start' (Get G (ParseBytes G d) ''usage'')
            (Get G (ParseBytes G d) ''timings'') now
      | None \<Rightarrow>
          if foundValidJSON \<or> payloads \<noteq> [] then parseMetrics F G modelID start' None None now
          else Inl (Error ''no valid JSON data found in stream''))"

subsection \<open>ModelConfig.UnmarshalYAML\<close>

text \<open>
  \<^verbatim>\<open>ModelConfig\<close>. The fields \<^verbatim>\<open>Macros\<close>, \<^verbatim>\<open>Metadata\<close> and \<^verbatim>\<open>SendLoadingState\<close>,
  whose types are declared elsewhere, are the extension of the record.
\<close>

record ModelFilters =
  StripParams :: string

record ModelConfig =
  Cmd :: string
  CmdStop :: string
  Proxy :: string
  Aliases :: "string list"
  Env :: "string list"
  CheckEndpoint :: string
  UnloadAfter :: int
  Unlisted :: bool
  UseModelName :: string
  SleepEndpoint :: string
  SleepMethod :: string
  SleepBody :: string
  SleepTimeout :: int
  WakeEndpoint :: string
  WakeMethod :: string
  WakeBody :: string
  WakeTimeout :: int
  Name :: string
  Description :: string
  ConcurrencyLimit :: int
  Filters :: ModelFilters

text \<open>
  The defaults handed to the decoder; \<open>zero\<close> is the zero value of the extension. Every field
  the literal of the source leaves out has its zero value.
\<close>

definition rawModelConfig_defaults :: "string \<Rightarrow> 'a \<Rightarrow> 'a ModelConfig_scheme" where
  "rawModelConfig_defaults goos zero =
     (let defaults = \<lparr>Cmd = [], CmdStop = [], Proxy = ''http://localhost:${PORT}'', Aliases = [],
            Env = [], CheckEndpoint = ''/health'', UnloadAfter = 0, Unlisted = False,
            UseModelName = [], SleepEndpoint = [], SleepMethod = [], SleepBody = [],
            SleepTimeout = 0, WakeEndpoint = [], WakeMethod = [], WakeBody = [], WakeTimeout = 0,
            Name = [], Description = [], ConcurrencyLimit = 0,
            Filters = \<lparr>StripParams = []\<rparr>, \<dots> = zero\<rparr>
      in if goos = ''windows'' then defaults\<lparr>CmdStop := ''taskkill /f /t /pid ${PID}''\<rparr>
         else defaults)"

definition validMethods :: "string \<Rightarrow> bool" where
  "validMethods m = (m \<in> set [''GET'', ''POST'', ''PUT'', ''PATCH''])"

text \<open>
  \<^verbatim>\<open>m.UnmarshalYAML(unmarshal)\<close>: the receiver after the call and the error returned.
  \<open>unmarshal\<close> decodes the YAML into the defaults or fails; \<open>goos\<close> is \<^verbatim>\<open>runtime.GOOS\<close>
  and \<open>ToUpper\<close> is \<^verbatim>\<open>strings.ToUpper\<close>.
\<close>

definition UnmarshalYAML ::
  "string \<Rightarrow> (string \<Rightarrow> string) \<Rightarrow> 'a \<Rightarrow> 'a ModelConfig_scheme
     \<Rightarrow> ('a ModelConfig_scheme \<Rightarrow> error + 'a ModelConfig_scheme)
     \<Rightarrow> 'a ModelConfig_scheme \<times> error option" where
  "UnmarshalYAML goos ToUpper zero m unmarshal =
     (case unmarshal (rawModelConfig_defaults goos zero) of
        Inl err \<Rightarrow> (m, Some err)
      | Inr defaults \<Rightarrow>
          (let m = defaults
           in if SleepEndpoint m \<noteq> [] \<and> WakeEndpoint m = [] then
                (m, Some (Error ''wakeEndpoint required when sleepEndpoint is configured''))
              else if WakeEndpoint m \<noteq> [] \<and> SleepEndpoint m = [] then
                (m, Some (Error ''sleepEndpoint required when wakeEndpoint is configured''))
              else
                (let m = (if SleepEndpoint m \<noteq> [] \<and> SleepMethod m = []
                          then m\<lparr>SleepMethod := ''POST''\<rparr> else m);
                     m = (if WakeEndpoint m \<noteq> [] \<and> WakeMethod m = []
                          then m\<lparr>WakeMethod := ''POST''\<rparr> else m)
                 in if SleepMethod m \<noteq> [] \<and> \<not> validMethods (ToUpper (SleepMethod m)) then
                      (m, Some (Error (''invalid sleepMethod: '' @ SleepMethod m
                                        @ '' (must be GET, POST, PUT, or PATCH)'')))
                    else if WakeMethod m \<noteq> [] \<and> \<not> validMethods (ToUpper (WakeMethod m)) then
                      (m, Some (Error (''invalid wakeMethod: '' @ WakeMethod m
                                        @ '' (must be GET, POST, PUT, or PATCH)'')))
                    else
                      (let m = (if SleepMethod m \<noteq> []
                                then m\<lparr>SleepMethod := ToUpper (SleepMethod m)\<rparr> else m);
                           m = (if WakeMethod m \<noteq> []
                                then m\<lparr>WakeMethod := ToUpper (WakeMethod m)\<rparr> else m)
                       in (m, None)))))"

subsection \<open>The UnloadAfter goroutine of start\<close>

datatype ProcessState = StateStopped | StateStarting | StateReady | StateStopping | StateShutdown
  | StateSleepPending | StateAsleep | StateWaking

text \<open>
  What the goroutine reads at a tick: \<^verbatim>\<open>p.CurrentState()\<close>,
  \<^verbatim>\<open>p.inFlightRequestsCount.Load()\<close> and \<^verbatim>\<open>time.Since(p.getLastRequestHandled())\<close>. What it
  does to the process: a line for the logger, or a call of one of the methods that unload it.
\<close>

record tick =
  CurrentState :: ProcessState
  inFlightRequestsCount :: int
  sinceLastRequestHandled :: int

datatype action = Infof string "arg list" | CallStop | CallSleep

definition Second :: int where
  "Second = 1000000000"

text \<open>
  The loop over the ticks: the actions of the goroutine on the ticks given, in order. It ends at
  a \<^verbatim>\<open>return\<close>, or with the ticks, the goroutine then waiting for the next one.
\<close>

fun unload_loop :: "string \<Rightarrow> 'a ModelConfig_scheme \<Rightarrow> int \<Rightarrow> tick list \<Rightarrow> action list" where
  "unload_loop pid config maxDuration [] = []"
| "unload_loop pid config maxDuration (t # ts) =
     (if CurrentState t \<noteq> StateReady then []
      else if inFlightRequestsCount t \<noteq> 0 then unload_loop pid config maxDuration ts
      else if sinceLastRequestHandled t > maxDuration then
        [Infof ''<%s> Unloading model, TTL of %ds reached'' [AStr pid, AInt (UnloadAfter config)],
         CallStop]
      else unload_loop pid config maxDuration ts)"

definition unload_monitor :: "string \<Rightarrow> 'a ModelConfig_scheme \<Rightarrow> tick list \<Rightarrow> action list" where
  "unload_monitor pid config ticks =
     (if UnloadAfter config > 0 then
        (let maxDuration = wrap_int (UnloadAfter config * Second)
         in unload_loop pid config maxDuration ticks)
      else [])"

text \<open>The monitor is alive after a tick: the process is ready, and busy or not idle for too long.\<close>

definition keeps_waiting :: "int \<Rightarrow> tick \<Rightarrow> bool" where
  "keeps_waiting maxDuration t =
     (CurrentState t = StateReady
      \<and> (inFlightRequestsCount t \<noteq> 0 \<or> \<not> sinceLastRequestHandled t > maxDuration))"

subsection \<open>An interpretation of the library for the examples\<close>

text \<open>
  The examples run the definitions on JSON values given as terms, with exact arithmetic on the
  numbers. \<open>member\<close> returns the first member of an object with the key, as gjson does; a
  number reads as itself and, as an integer, truncated toward zero; \<open>true\<close> reads as 1 and
  every other value as 0 (the examples hold no strings that spell numbers). Bytes are parsed by
  looking them up in a table.
\<close>

datatype json = JNull | JTrue | JFalse | JNumber real | JString string
  | JArray "json list" | JObject "(string \<times> json) list"

definition trunc :: "real \<Rightarrow> int" where
  "trunc x = (if 0 \<le> x then \<lfloor>x\<rfloor> else \<lceil>x\<rceil>)"

definition exact :: "real float64_ops" where
  "exact = \<lparr>of_int64 = real_of_int, fadd = (+), fdiv = (/), to_int = trunc\<rparr>"

fun json_member :: "json \<Rightarrow> string \<Rightarrow> json option" where
  "json_member (JObject kvs) k = map_of kvs k"
| "json_member _ k = None"

fun json_float :: "json \<Rightarrow> real" where
  "json_float (JNumber x) = x"
| "json_float JTrue = 1"
| "json_float _ = 0"

definition table_gjson :: "(string \<times> json) list \<Rightarrow> (json, real) gjson" where
  "table_gjson tab = \<lparr>ValidBytes = (\<lambda>b. map_of tab b \<noteq> None), ParseBytes = map_of tab,
     member = json_member, intOf = (\<lambda>j. trunc (json_float j)), floatOf = json_float\<rparr>"

definition ex_usage :: json where
  "ex_usage = JObject [(''prompt_tokens'', JNumber 50), (''completion_tokens'', JNumber 25)]"

definition ex_timings :: json where
  "ex_timings = JObject [(''prompt_n'', JNumber 100), (''predicted_n'', JNumber 50),
     (''prompt_per_second'', JNumber 150.5), (''predicted_per_second'', JNumber 25.5),
     (''prompt_ms'', JNumber 500), (''predicted_ms'', JNumber 1500)]"

text \<open>A timings object whose rate is the value \<^verbatim>\<open>-1.0\<close>, and one that carries no rates.\<close>

definition ex_timings_minus_one :: json where
  "ex_timings_minus_one = JObject [(''predicted_n'', JNumber 5),
     (''predicted_per_second'', JNumber (- 1)), (''prompt_ms'', JNumber 1000),
     (''predicted_ms'', JNumber 0)]"

definition ex_timings_no_rates :: json where
  "ex_timings_no_rates = JObject [(''prompt_n'', JNumber 10), (''predicted_n'', JNumber 0)]"

definition ex_usage_only :: json where
  "ex_usage_only = JObject [(''prompt_tokens'', JNumber 100), (''completion_tokens'', JNumber 50)]"

text \<open>White space as the examples trim it: the six ASCII space characters.\<close>

definition ascii_space :: "char \<Rightarrow> bool" where
  "ascii_space c = (c \<in> set [CHR 0x09, CHR 0x0A, CHR 0x0B, CHR 0x0C, CHR 0x0D, CHR 0x20])"

definition trim_ascii :: "string \<Rightarrow> string" where
  "trim_ascii s = rev (dropWhile ascii_space (rev (dropWhile ascii_space s)))"

text \<open>
  A healthy connection on which nothing was written, a request, and handlers: one that sets the
  Content-Type, writes the status and then the body and returns no error, and one that writes
  nothing and returns an error.
\<close>

definition ex_writer :: gin_ResponseWriter where
  "ex_writer = \<lparr>rw_status = 200, rw_header = Map.empty, rw_sent = [], rw_written = False,
     rw_broken = None\<rparr>"

definition set_Header :: "responseBodyCopier \<Rightarrow> string \<Rightarrow> string \<Rightarrow> responseBodyCopier" where
  "set_Header w key v =
     w\<lparr>ResponseWriter := (ResponseWriter w)\<lparr>rw_header := Header_Set (Header w) key v\<rparr>\<rparr>"

definition ex_next ::
  "int \<Rightarrow> string \<Rightarrow> string \<Rightarrow> string \<Rightarrow> responseBodyCopier \<Rightarrow> Request
     \<Rightarrow> responseBodyCopier \<times> error option" where
  "ex_next code ctype payload modelID w r =
     (let w = set_Header w ''Content-Type'' ctype;
          w = WriteHeader w code;
          w = fst (Write w 1500000000 payload)
      in (w, None))"

definition ex_failing_next ::
  "error \<Rightarrow> string \<Rightarrow> responseBodyCopier \<Rightarrow> Request \<Rightarrow> responseBodyCopier \<times> error option" where
  "ex_failing_next err modelID w r = (w, Some err)"

definition ex_request :: Request where
  "ex_request = \<lparr>URL_Path = ''/v1/chat/completions''\<rparr>"

text \<open>
  An event stream of three data lines, the second with usage, and the table that parses its
  payloads; the metric of the usage line for a request started at 1 s and parsed at 3 s.
\<close>

definition ex_payload_choices :: string where
  \<open>ex_payload_choices = ''{"choices":[]}''\<close>

definition ex_payload_usage :: string where
  \<open>ex_payload_usage = ''{"usage":{"prompt_tokens":10,"completion_tokens":20}}''\<close>

definition ex_table :: "(string \<times> json) list" where
  "ex_table =
     [(ex_payload_choices, JObject [(''choices'', JArray [])]),
      (ex_payload_usage,
       JObject [(''usage'', JObject [(''prompt_tokens'', JNumber 10), (''completion_tokens'', JNumber 20)])])]"

definition ex_stream :: string where
  "ex_stream = ''data: '' @ ex_payload_choices @ [newline, newline]
     @ ''data: '' @ ex_payload_usage @ [newline, newline]
     @ ''data: [DONE]'' @ [newline, newline]"

text \<open>An event stream with no valid JSON payload.\<close>

definition ex_stream_invalid :: string where
  "ex_stream_invalid = ''data: not json'' @ [newline, newline] @ ''data: [DONE]'' @ [newline, newline]"

definition ex_usage_metric :: "real TokenMetrics" where
  "ex_usage_metric = \<lparr>ID = 0, Timestamp = 3000000000, Model = ''m'', CachedTokens = - 1,
     InputTokens = 10, OutputTokens = 20, PromptPerSecond = - 1, TokensPerSecond = 10,
     DurationMs = 2000\<rparr>"

text \<open>
  Upper case for the ASCII letters; a configuration with sleep and wake endpoints and a TTL of
  2 s; ticks on which the process is busy, then idle for 1 s, then idle for 3 s; decoders that
  set one endpoint, the other, both, and neither.
\<close>

definition to_upper_ascii :: "string \<Rightarrow> string" where
  "to_upper_ascii s =
     map (\<lambda>c. case map_of (zip ''abcdefghijklmnopqrstuvwxyz'' ''ABCDEFGHIJKLMNOPQRSTUVWXYZ'') c of
                 None \<Rightarrow> c | Some u \<Rightarrow> u) s"

definition ex_config :: ModelConfig where
  "ex_config = (rawModelConfig_defaults ''linux'' ())\<lparr>UnloadAfter := 2, SleepEndpoint := ''/sleep'',
     WakeEndpoint := ''/wake_up'', SleepMethod := ''POST'', WakeMethod := ''POST''\<rparr>"

definition ex_ticks :: "tick list" where
  "ex_ticks =
     [\<lparr>CurrentState = StateReady, inFlightRequestsCount = 1, sinceLastRequestHandled = 5000000000\<rparr>,
      \<lparr>CurrentState = StateReady, inFlightRequestsCount = 0, sinceLastRequestHandled = 1000000000\<rparr>,
      \<lparr>CurrentState = StateReady, inFlightRequestsCount = 0, sinceLastRequestHandled = 3000000000\<rparr>,
      \<lparr>CurrentState = StateStopped, inFlightRequestsCount = 0, sinceLastRequestHandled = 4000000000\<rparr>]"

definition ex_unmarshal_sleep_only :: "ModelConfig \<Rightarrow> error + ModelConfig" where
  "ex_unmarshal_sleep_only d = Inr (d\<lparr>SleepEndpoint := ''/sleep''\<rparr>)"

definition ex_unmarshal_wake_only :: "ModelConfig \<Rightarrow> error + ModelConfig" where
  "ex_unmarshal_wake_only d = Inr (d\<lparr>WakeEndpoint := ''/wake_up''\<rparr>)"

definition ex_unmarshal_both :: "ModelConfig \<Rightarrow> error + ModelConfig" where
  "ex_unmarshal_both d =
     Inr (d\<lparr>SleepEndpoint := ''/sleep'', WakeEndpoint := ''/wake_up'', WakeMethod := ''get''\<rparr>)"

definition ex_unmarshal_neither :: "ModelConfig \<Rightarrow> error + ModelConfig" where
  "ex_unmarshal_neither d = Inr (d\<lparr>Cmd := ''llama-server --port ${PORT}''\<rparr>)"

section \<open>Theorems\<close>

subsection \<open>The bounded collection\<close>

lemma last_n_last_n_append: "last_n k (last_n k xs @ ys) = last_n k (xs @ ys)"
  by (cases "length xs \<le> k") (simp_all add: last_n_def add.commute)

lemma length_numbered [simp]: "length (numbered n ms) = length ms"
  by (induction ms arbitrary: n) simp_all

lemma map_ID_numbered: "map ID (numbered n ms) = map int [n ..< n + length ms]"
proof (induction ms arbitrary: n)
  case Nil
  show ?case by simp
next
  case (Cons m ms)
  have "[n ..< n + length (m # ms)] = n # [Suc n ..< Suc n + length ms]"
    by (simp add: upt_rec)
  with Cons show ?case by simp
qed

lemma wrap_int_id: "- (2 ^ 63) \<le> x \<Longrightarrow> x < 2 ^ 63 \<Longrightarrow> wrap_int x = x"
  by (simp add: wrap_int_def)

lemma addMetrics_step:
  assumes "0 \<le> maxMetrics mp" and "nextID mp = int n" and "Suc n < 2 ^ 63"
  shows "\<exists>ev. addMetrics mp m =
     Inr (mp\<lparr>nextID := int (Suc n),
              metrics := last_n (nat (maxMetrics mp)) (metrics mp @ [m\<lparr>ID := int n\<rparr>])\<rparr>, ev)"
proof -
  have w: "wrap_int (int n + 1) = int n + 1"
    using assms(3) by (intro wrap_int_id) simp_all
  show ?thesis
  proof (cases "int (length (metrics mp)) + 1 > maxMetrics mp")
    case True
    then have "nat (1 + int (length (metrics mp)) - maxMetrics mp)
        = Suc (length (metrics mp)) - nat (maxMetrics mp)"
      and "Suc (length (metrics mp)) - nat (maxMetrics mp) - length (metrics mp)
        = Suc 0 - nat (maxMetrics mp)"
      using assms(1) by linarith+
    then show ?thesis
      using True assms(1,2) w
      by (simp add: addMetrics_def Let_def slice_from_def last_n_def)
  next
    case False
    then have "Suc (length (metrics mp)) - nat (maxMetrics mp) = 0"
      by linarith
    then show ?thesis
      using False assms(2) w
      by (simp add: addMetrics_def Let_def last_n_def)
  qed
qed

lemma length_last_n: "length (last_n k xs) \<le> k"
  by (simp add: last_n_def)

lemma addMetrics_seq_general:
  assumes "0 \<le> maxMetrics mp" and "nextID mp = int n" and "n + length ms < 2 ^ 63"
    and "length (metrics mp) \<le> nat (maxMetrics mp)"
  shows "addMetrics_seq mp ms =
     Inr (mp\<lparr>nextID := int (n + length ms),
              metrics := last_n (nat (maxMetrics mp)) (metrics mp @ numbered n ms)\<rparr>)"
  using assms
proof (induction ms arbitrary: mp n)
  case Nil
  then show ?case
    by (simp add: last_n_def)
next
  case (Cons m ms)
  let ?k = "nat (maxMetrics mp)"
  let ?mp' = "mp\<lparr>nextID := int (Suc n), metrics := last_n ?k (metrics mp @ [m\<lparr>ID := int n\<rparr>])\<rparr>"
  from Cons.prems have lt: "Suc n < 2 ^ 63" by simp
  obtain ev where step: "addMetrics mp m = Inr (?mp', ev)"
    using addMetrics_step [OF Cons.prems(1,2) lt] by blast
  have "addMetrics_seq ?mp' ms =
     Inr (?mp'\<lparr>nextID := int (Suc n + length ms),
               metrics := last_n (nat (maxMetrics ?mp')) (metrics ?mp' @ numbered (Suc n) ms)\<rparr>)"
    using Cons.prems by (intro Cons.IH) (simp_all add: length_last_n)
  moreover have "last_n ?k (last_n ?k (metrics mp @ [m\<lparr>ID := int n\<rparr>]) @ numbered (Suc n) ms)
      = last_n ?k (metrics mp @ numbered n (m # ms))"
    by (simp add: last_n_last_n_append)
  ultimately show ?case
    using step by simp
qed

text \<open>
  C1. After any sequence \<open>ms\<close> of \<^verbatim>\<open>addMetrics\<close> calls on a fresh monitor of capacity
  \<open>cap\<close> (a capacity is not negative; fewer than \<open>2^63\<close> calls, the range of the ID counter)
  no call has panicked, the \<open>i\<close>-th inserted record got the ID \<open>i\<close> (counting from 0), the stored
  records are exactly the last \<open>cap\<close> inserted ones (all of them when fewer were inserted), in
  insertion order, so the stored IDs are strictly increasing, and the stored count does not exceed
  the capacity.
\<close>

theorem addMetrics_ring:
  assumes "0 \<le> cap" and "length ms < 2 ^ 63"
  shows "\<exists>mp. addMetrics_seq (newMetricsMonitor cap) ms = Inr mp
           \<and> getMetrics mp = last_n (nat cap) (numbered 0 ms)
           \<and> map ID (getMetrics mp) = map int [length ms - nat cap ..< length ms]
           \<and> sorted_wrt (<) (map ID (getMetrics mp))
           \<and> int (length (getMetrics mp)) \<le> cap
           \<and> nextID mp = int (length ms)"
proof -
  let ?init = "newMetricsMonitor cap :: 'a metricsMonitor"
  let ?fin = "?init\<lparr>nextID := int (length ms), metrics := last_n (nat cap) (numbered 0 ms)\<rparr>"
  have "addMetrics_seq ?init ms = Inr ?fin"
    using addMetrics_seq_general [of ?init 0 ms] assms
    by (simp add: newMetricsMonitor_def last_n_def)
  moreover have ids: "map ID (last_n (nat cap) (numbered 0 ms)) = map int [length ms - nat cap ..< length ms]"
  proof -
    have "map ID (drop (length ms - nat cap) (numbered 0 ms))
        = drop (length ms - nat cap) (map ID (numbered 0 ms))"
      by (simp only: drop_map)
    also have "\<dots> = drop (length ms - nat cap) (map int [0 ..< length ms])"
      by (simp add: map_ID_numbered)
    also have "\<dots> = map int [length ms - nat cap ..< length ms]"
      by (simp add: drop_map)
    finally show ?thesis
      by (simp only: last_n_def length_numbered)
  qed
  moreover have "sorted_wrt (<) (map int [length ms - nat cap ..< length ms])"
    by (simp add: sorted_wrt_map sorted_wrt_iff_nth_less)
  moreover have "int (length (last_n (nat cap) (numbered 0 ms))) \<le> cap"
    using assms(1) by (simp add: last_n_def)
  ultimately show ?thesis
    by (simp add: getMetrics_def)
qed

theorem addMetrics_ring_witness:
  "\<exists>mp. addMetrics_seq (newMetricsMonitor 2)
           [\<lparr>ID = 7, Timestamp = 0, Model = ''a'', CachedTokens = 0, InputTokens = 1,
             OutputTokens = 0, PromptPerSecond = (0::int), TokensPerSecond = 0, DurationMs = 0\<rparr>,
            \<lparr>ID = 7, Timestamp = 0, Model = ''b'', CachedTokens = 0, InputTokens = 2,
             OutputTokens = 0, PromptPerSecond = 0, TokensPerSecond = 0, DurationMs = 0\<rparr>,
            \<lparr>ID = 7, Timestamp = 0, Model = ''c'', CachedTokens = 0, InputTokens = 3,
             OutputTokens = 0, PromptPerSecond = 0, TokensPerSecond = 0, DurationMs = 0\<rparr>] = Inr mp
        \<and> map ID (getMetrics mp) = [1, 2] \<and> map Model (getMetrics mp) = [''b'', ''c'']
        \<and> nextID mp = 3"
proof -
  let ?ms = "[\<lparr>ID = 7, Timestamp = 0, Model = ''a'', CachedTokens = 0, InputTokens = 1,
             OutputTokens = 0, PromptPerSecond = (0::int), TokensPerSecond = 0, DurationMs = 0\<rparr>,
            \<lparr>ID = 7, Timestamp = 0, Model = ''b'', CachedTokens = 0, InputTokens = 2,
             OutputTokens = 0, PromptPerSecond = 0, TokensPerSecond = 0, DurationMs = 0\<rparr>,
            \<lparr>ID = 7, Timestamp = 0, Model = ''c'', CachedTokens = 0, InputTokens = 3,
             OutputTokens = 0, PromptPerSecond = 0, TokensPerSecond = 0, DurationMs = 0\<rparr>]"
  have h1: "(0::int) \<le> 2" by simp
  have h2: "length ?ms < 2 ^ 63" by simp
  from addMetrics_ring [OF h1 h2] obtain mp where
    a: "addMetrics_seq (newMetricsMonitor 2) ?ms = Inr mp" and
    b: "getMetrics mp = last_n (nat 2) (numbered 0 ?ms)" and
    c: "nextID mp = int (length ?ms)"
    by blast
  from b have "map ID (getMetrics mp) = [1, 2] \<and> map Model (getMetrics mp) = [''b'', ''c'']"
    by (simp add: last_n_def)
  with a c show ?thesis by simp
qed

subsection \<open>parseMetrics\<close>

lemma Exists_simps [simp]: "Exists None = False" "Exists (Some j) = True"
  by (simp_all add: Exists_def)

lemma Get_None [simp]: "Get G None k = None"
  by (simp add: Get_def)

lemmas example_defs = exact_def table_gjson_def Int_val_def Float_val_def Get_def trunc_def
  Milliseconds_def time_Since_def quo_def

text \<open>
  C4, as the code has it. When the timings object exists, the metric takes InputTokens from
  \<open>prompt_n\<close>, OutputTokens from \<open>predicted_n\<close>, PromptPerSecond from \<open>prompt_per_second\<close>,
  DurationMs from \<open>prompt_ms + predicted_ms\<close> and, when \<open>cache_n\<close> is present, CachedTokens
  from \<open>cache_n\<close>, whatever the usage object holds. TokensPerSecond is
  \<open>predicted_per_second\<close>, except that the value \<^verbatim>\<open>-1.0\<close> there counts as unknown: with
  OutputTokens and DurationMs both positive it is replaced by
  \<open>OutputTokens / (DurationMs / 1000)\<close>.
\<close>

theorem parseMetrics_timings:
  assumes "Exists timings"
  shows "\<exists>tm. parseMetrics F G modelID start' usage timings now = Inr tm
    \<and> InputTokens tm = Int_val G (Get G timings ''prompt_n'')
    \<and> OutputTokens tm = Int_val G (Get G timings ''predicted_n'')
    \<and> PromptPerSecond tm = Float_val F G (Get G timings ''prompt_per_second'')
    \<and> DurationMs tm = to_int F (fadd F (Float_val F G (Get G timings ''prompt_ms''))
                                       (Float_val F G (Get G timings ''predicted_ms'')))
    \<and> (Exists (Get G timings ''cache_n'')
          \<longrightarrow> CachedTokens tm = Int_val G (Get G timings ''cache_n''))
    \<and> TokensPerSecond tm =
        (if Float_val F G (Get G timings ''predicted_per_second'') = of_int64 F (- 1)
            \<and> OutputTokens tm > 0 \<and> DurationMs tm > 0
         then fdiv F (of_int64 F (OutputTokens tm))
                (fdiv F (of_int64 F (DurationMs tm)) (of_int64 F 1000))
         else Float_val F G (Get G timings ''predicted_per_second''))"
  using assms by (simp add: parseMetrics_def Let_def)

theorem parseMetrics_timings_witness:
  "Exists (Some ex_timings)
   \<and> (\<exists>tm. parseMetrics exact (table_gjson []) ''m'' 0 (Some ex_usage) (Some ex_timings) 7000000 = Inr tm
        \<and> InputTokens tm = 100 \<and> OutputTokens tm = 50 \<and> PromptPerSecond tm = 150.5
        \<and> TokensPerSecond tm = 25.5 \<and> DurationMs tm = 2000)"
proof -
  let ?G = "table_gjson []"
  let ?t = "Some ex_timings"
  have h: "Exists ?t" by simp
  from parseMetrics_timings [OF h, of exact ?G "''m''" 0 "Some ex_usage" 7000000]
  obtain tm where
    r: "parseMetrics exact ?G ''m'' 0 (Some ex_usage) ?t 7000000 = Inr tm" and
    a: "InputTokens tm = Int_val ?G (Get ?G ?t ''prompt_n'')" and
    b: "OutputTokens tm = Int_val ?G (Get ?G ?t ''predicted_n'')" and
    c: "PromptPerSecond tm = Float_val exact ?G (Get ?G ?t ''prompt_per_second'')" and
    d: "DurationMs tm = to_int exact (fadd exact (Float_val exact ?G (Get ?G ?t ''prompt_ms''))
                                       (Float_val exact ?G (Get ?G ?t ''predicted_ms'')))" and
    e: "TokensPerSecond tm =
        (if Float_val exact ?G (Get ?G ?t ''predicted_per_second'') = of_int64 exact (- 1)
            \<and> OutputTokens tm > 0 \<and> DurationMs tm > 0
         then fdiv exact (of_int64 exact (OutputTokens tm))
                (fdiv exact (of_int64 exact (DurationMs tm)) (of_int64 exact 1000))
         else Float_val exact ?G (Get ?G ?t ''predicted_per_second''))"
    by blast
  have "InputTokens tm = 100" "OutputTokens tm = 50" "PromptPerSecond tm = 150.5"
    "DurationMs tm = 2000"
    using a b c d by (simp_all add: example_defs ex_timings_def)
  moreover have "TokensPerSecond tm = 25.5"
    using e by (simp add: example_defs ex_timings_def)
  ultimately show ?thesis
    using h r by simp
qed

text \<open>
  The claim C4 as it is written fails: the timings object below exists and holds
  \<open>predicted_per_second = -1.0\<close>, \<open>predicted_n = 5\<close> and a duration of 1000 ms, and the metric's
  TokensPerSecond is \<open>5\<close>, not \<open>-1.0\<close>.
\<close>

theorem parseMetrics_timings_counterexample:
  "Exists (Some ex_timings_minus_one)
   \<and> Float_val exact (table_gjson [])
        (Get (table_gjson []) (Some ex_timings_minus_one) ''predicted_per_second'') = - 1
   \<and> parseMetrics exact (table_gjson []) ''m'' 0 None (Some ex_timings_minus_one) 7000000 =
       Inr \<lparr>ID = 0, Timestamp = 7000000, Model = ''m'', CachedTokens = - 1, InputTokens = 0,
            OutputTokens = 5, PromptPerSecond = 0, TokensPerSecond = 5, DurationMs = 1000\<rparr>"
  by (simp add: parseMetrics_def Let_def example_defs ex_timings_minus_one_def)

text \<open>
  C5. When the timings object is absent, DurationMs is the number of milliseconds from the
  request's start to now, and TokensPerSecond is \<open>OutputTokens / (DurationMs / 1000)\<close> when
  OutputTokens and DurationMs are both positive, and \<^verbatim>\<open>-1.0\<close> otherwise: in particular when
  one of them is zero. The only division by a duration stands under the test that the duration is
  positive.
\<close>

theorem parseMetrics_no_timings:
  assumes "\<not> Exists timings"
  shows "\<exists>tm. parseMetrics F G modelID start' usage timings now = Inr tm
    \<and> DurationMs tm = Milliseconds (time_Since now start')
    \<and> TokensPerSecond tm =
        (if OutputTokens tm > 0 \<and> DurationMs tm > 0
         then fdiv F (of_int64 F (OutputTokens tm))
                (fdiv F (of_int64 F (DurationMs tm)) (of_int64 F 1000))
         else of_int64 F (- 1))
    \<and> (OutputTokens tm = 0 \<or> DurationMs tm = 0 \<longrightarrow> TokensPerSecond tm = of_int64 F (- 1))"
  using assms by (simp add: parseMetrics_def Let_def)

theorem parseMetrics_no_timings_witness:
  "\<not> Exists (None :: json option)
   \<and> (\<exists>tm. parseMetrics exact (table_gjson []) ''m'' 0 (Some ex_usage_only) None 1000000000 = Inr tm
        \<and> DurationMs tm = 1000 \<and> OutputTokens tm = 50 \<and> TokensPerSecond tm = 50)
   \<and> (\<exists>tm. parseMetrics exact (table_gjson []) ''m'' 0 (Some ex_usage_only) None 999999 = Inr tm
        \<and> DurationMs tm = 0 \<and> OutputTokens tm = 50 \<and> TokensPerSecond tm = - 1)"
proof -
  let ?G = "table_gjson []"
  have h: "\<not> Exists (None :: json option)" by simp
  from parseMetrics_no_timings [OF h, of exact ?G "''m''" 0 "Some ex_usage_only" 1000000000]
  obtain tm where
    r: "parseMetrics exact ?G ''m'' 0 (Some ex_usage_only) None 1000000000 = Inr tm" and
    a: "DurationMs tm = Milliseconds (time_Since 1000000000 0)" and
    b: "TokensPerSecond tm =
        (if OutputTokens tm > 0 \<and> DurationMs tm > 0
         then fdiv exact (of_int64 exact (OutputTokens tm))
                (fdiv exact (of_int64 exact (DurationMs tm)) (of_int64 exact 1000))
         else of_int64 exact (- 1))"
    by blast
  have o: "OutputTokens tm = 50"
    using r by (auto simp add: parseMetrics_def Let_def example_defs ex_usage_only_def)
  have d: "DurationMs tm = 1000"
    using a by (simp add: example_defs)
  have "TokensPerSecond tm = 50"
    using b by (simp add: o d exact_def)
  with r o d have first: "\<exists>tm. parseMetrics exact ?G ''m'' 0 (Some ex_usage_only) None 1000000000 = Inr tm
        \<and> DurationMs tm = 1000 \<and> OutputTokens tm = 50 \<and> TokensPerSecond tm = 50"
    by simp
  from parseMetrics_no_timings [OF h, of exact ?G "''m''" 0 "Some ex_usage_only" 999999]
  obtain tm' where
    r': "parseMetrics exact ?G ''m'' 0 (Some ex_usage_only) None 999999 = Inr tm'" and
    a': "DurationMs tm' = Milliseconds (time_Since 999999 0)" and
    c': "OutputTokens tm' = 0 \<or> DurationMs tm' = 0 \<longrightarrow> TokensPerSecond tm' = of_int64 exact (- 1)"
    by blast
  have o': "OutputTokens tm' = 50"
    using r' by (auto simp add: parseMetrics_def Let_def example_defs ex_usage_only_def)
  have d': "DurationMs tm' = 0"
    using a' by (simp add: example_defs)
  have "TokensPerSecond tm' = - 1"
    using c' d' by (simp add: exact_def)
  with r' o' d' have "\<exists>tm. parseMetrics exact ?G ''m'' 0 (Some ex_usage_only) None 999999 = Inr tm
        \<and> DurationMs tm = 0 \<and> OutputTokens tm = 50 \<and> TokensPerSecond tm = - 1"
    by simp
  with h first show ?thesis
    by blast
qed

text \<open>
  C6, as the code has it. CachedTokens is \<open>-1\<close> when neither \<open>cache_read_input_tokens\<close> of usage
  nor \<open>cache_n\<close> of timings is there; InputTokens (OutputTokens) is \<open>0\<close> when usage has neither
  \<open>prompt_tokens\<close> nor \<open>input_tokens\<close> (neither \<open>completion_tokens\<close> nor \<open>output_tokens\<close>) and
  timings has no \<open>prompt_n\<close> (\<open>predicted_n\<close>); PromptPerSecond is \<^verbatim>\<open>-1.0\<close> when the timings
  object is absent; TokensPerSecond is \<^verbatim>\<open>-1.0\<close> when the timings object is absent and
  OutputTokens and DurationMs are not both positive. An object that is absent has no members.
\<close>

theorem parseMetrics_defaults:
  "\<exists>tm. parseMetrics F G modelID start' usage timings now = Inr tm
    \<and> (\<not> Exists (Get G usage ''cache_read_input_tokens'') \<and> \<not> Exists (Get G timings ''cache_n'')
          \<longrightarrow> CachedTokens tm = - 1)
    \<and> (\<not> Exists (Get G usage ''prompt_tokens'') \<and> \<not> Exists (Get G usage ''input_tokens'')
          \<and> \<not> Exists (Get G timings ''prompt_n'') \<longrightarrow> InputTokens tm = 0)
    \<and> (\<not> Exists (Get G usage ''completion_tokens'') \<and> \<not> Exists (Get G usage ''output_tokens'')
          \<and> \<not> Exists (Get G timings ''predicted_n'') \<longrightarrow> OutputTokens tm = 0)
    \<and> (\<not> Exists timings \<longrightarrow> PromptPerSecond tm = of_int64 F (- 1))
    \<and> (\<not> Exists timings \<and> \<not> (OutputTokens tm > 0 \<and> DurationMs tm > 0)
          \<longrightarrow> TokensPerSecond tm = of_int64 F (- 1))"
  by (cases timings; cases usage) (auto simp add: parseMetrics_def Let_def Int_val_def Exists_def)

theorem parseMetrics_defaults_witness:
  "\<exists>tm. parseMetrics exact (table_gjson []) ''m'' 0 (Some (JObject [])) None 999999 = Inr tm
     \<and> CachedTokens tm = - 1 \<and> InputTokens tm = 0 \<and> OutputTokens tm = 0
     \<and> PromptPerSecond tm = - 1 \<and> TokensPerSecond tm = - 1"
proof -
  let ?G = "table_gjson []"
  let ?u = "Some (JObject [])"
  have m: "\<not> Exists (Get ?G ?u k)" for k
    by (simp add: Get_def table_gjson_def)
  have n: "\<not> Exists (Get ?G None k)" for k
    by simp
  from parseMetrics_defaults [of exact ?G "''m''" 0 ?u None 999999]
  obtain tm where r: "parseMetrics exact ?G ''m'' 0 ?u None 999999 = Inr tm"
    and c: "\<not> Exists (Get ?G ?u ''cache_read_input_tokens'') \<and> \<not> Exists (Get ?G None ''cache_n'')
          \<longrightarrow> CachedTokens tm = - 1"
    and i: "\<not> Exists (Get ?G ?u ''prompt_tokens'') \<and> \<not> Exists (Get ?G ?u ''input_tokens'')
          \<and> \<not> Exists (Get ?G None ''prompt_n'') \<longrightarrow> InputTokens tm = 0"
    and ou: "\<not> Exists (Get ?G ?u ''completion_tokens'') \<and> \<not> Exists (Get ?G ?u ''output_tokens'')
          \<and> \<not> Exists (Get ?G None ''predicted_n'') \<longrightarrow> OutputTokens tm = 0"
    and p: "\<not> Exists (None :: json option) \<longrightarrow> PromptPerSecond tm = of_int64 exact (- 1)"
    and t: "\<not> Exists (None :: json option) \<and> \<not> (OutputTokens tm > 0 \<and> DurationMs tm > 0)
          \<longrightarrow> TokensPerSecond tm = of_int64 exact (- 1)"
    by blast
  have c': "CachedTokens tm = - 1" using c m n by blast
  have i': "InputTokens tm = 0" using i m n by blast
  have o': "OutputTokens tm = 0" using ou m n by blast
  have p': "PromptPerSecond tm = - 1" using p by (simp add: exact_def)
  have t': "TokensPerSecond tm = - 1" using t o' by (simp add: exact_def)
  show ?thesis
    using r c' i' o' p' t' by simp
qed

text \<open>
  The claim C6 as it is written fails. In the first response nothing carries a rate and the
  timings object is absent: TokensPerSecond is computed, \<open>50\<close>, from 50 output tokens in 1000 ms.
  In the second the timings object exists and holds no rate: PromptPerSecond and
  TokensPerSecond are \<open>0\<close>.
\<close>

theorem parseMetrics_defaults_counterexample:
  "\<not> Exists (Get (table_gjson []) (Some ex_usage_only) ''predicted_per_second'')
   \<and> parseMetrics exact (table_gjson []) ''m'' 0 (Some ex_usage_only) None 1000000000 =
       Inr \<lparr>ID = 0, Timestamp = 1000000000, Model = ''m'', CachedTokens = - 1, InputTokens = 100,
            OutputTokens = 50, PromptPerSecond = - 1, TokensPerSecond = 50, DurationMs = 1000\<rparr>
   \<and> \<not> Exists (Get (table_gjson []) (Some ex_timings_no_rates) ''prompt_per_second'')
   \<and> \<not> Exists (Get (table_gjson []) (Some ex_timings_no_rates) ''predicted_per_second'')
   \<and> parseMetrics exact (table_gjson []) ''m'' 0 None (Some ex_timings_no_rates) 1000000000 =
       Inr \<lparr>ID = 0, Timestamp = 1000000000, Model = ''m'', CachedTokens = - 1, InputTokens = 10,
            OutputTokens = 0, PromptPerSecond = 0, TokensPerSecond = 0, DurationMs = 0\<rparr>"
  by (simp add: parseMetrics_def Let_def example_defs ex_usage_only_def ex_timings_no_rates_def)

subsection \<open>The backward scan reads the lines from the last to the first\<close>

lemma LastIndexByte_none: "LastIndexByte s c = - 1 \<longleftrightarrow> c \<notin> set s"
proof (induction s)
  case Nil
  show ?case by simp
next
  case (Cons x xs)
  have "- 1 \<le> LastIndexByte xs c"
    using LastIndexByte_bounds [of xs c] by simp
  with Cons show ?case
    by (auto simp: Let_def)
qed

lemma LastIndexByte_split:
  assumes "LastIndexByte s c \<noteq> - 1"
  shows "\<exists>i. LastIndexByte s c = int i \<and> i < length s
           \<and> s = take i s @ c # drop (Suc i) s \<and> c \<notin> set (drop (Suc i) s)"
  using assms
proof (induction s)
  case Nil
  then show ?case by simp
next
  case (Cons x xs)
  show ?case
  proof (cases "LastIndexByte xs c = - 1")
    case True
    with Cons.prems have "x = c" by (auto simp: Let_def split: if_splits)
    with True show ?thesis
      by (auto simp: Let_def LastIndexByte_none intro!: exI [of _ 0])
  next
    case False
    from Cons.IH [OF False] obtain i where i: "LastIndexByte xs c = int i" "i < length xs"
      "xs = take i xs @ c # drop (Suc i) xs" "c \<notin> set (drop (Suc i) xs)"
      by blast
    have "LastIndexByte (x # xs) c = int (Suc i)"
      using False i(1) by (simp add: Let_def)
    moreover have "x # xs = take (Suc i) (x # xs) @ c # drop (Suc (Suc i)) (x # xs)"
      using i(3) by simp
    ultimately show ?thesis
      using i(2,4) by (intro exI [of _ "Suc i"]) simp
  qed
qed

lemma splitLines_no_newline: "newline \<notin> set t \<Longrightarrow> splitLines t = [t]"
  by (induction t) auto

lemma splitLines_not_Nil [simp]: "splitLines s \<noteq> []"
  by (induction s) (auto split: list.splits)

lemma splitLines_append:
  "newline \<notin> set t \<Longrightarrow> splitLines (s @ newline # t) = splitLines s @ [t]"
proof (induction s)
  case Nil
  then show ?case by (simp add: splitLines_no_newline)
next
  case (Cons c s)
  then show ?case
    by (cases "splitLines s") (auto split: list.splits)
qed

lemma stream_result_Nil:
  "stream_result F G m st now [] found =
     (if found then parseMetrics F G m st None None now
      else Inl (Error ''no valid JSON data found in stream''))"
  by (simp add: stream_result_def)

lemma payloads_Nil [simp]: "spec_json_payloads G T [] = []"
  by (simp add: spec_json_payloads_def List.map_filter_simps)

lemma stream_result_Cons:
  "stream_result F G m st now (spec_json_payloads G T (l # ls)) found =
     (let line = T l
      in if length line = 0 then stream_result F G m st now (spec_json_payloads G T ls) found
         else if \<not> HasPrefix line ''data:''
           then stream_result F G m st now (spec_json_payloads G T ls) found
         else
           (let data = T (drop (length ''data:'') line)
            in if length data = 0 then stream_result F G m st now (spec_json_payloads G T ls) found
               else if data = ''[DONE]''
                 then stream_result F G m st now (spec_json_payloads G T ls) found
               else if ValidBytes G data then
                 (let parsed = ParseBytes G data;
                      usage = Get G parsed ''usage'';
                      timings = Get G parsed ''timings''
                  in if Exists usage \<or> Exists timings
                     then parseMetrics F G m st usage timings now
                     else stream_result F G m st now (spec_json_payloads G T ls) True)
               else stream_result F G m st now (spec_json_payloads G T ls) found))"
  by (auto simp add: stream_result_def spec_json_payloads_def List.map_filter_simps
      data_payload_def Let_def has_usage_or_timings_def HasPrefix_def split: option.splits)

declare scan_back.simps [simp del]

lemma scan_back_done:
  "pos \<le> 0 \<Longrightarrow> scan_back F G T m st b now pos found = stream_result F G m st now [] found"
  by (subst scan_back.simps) (simp add: stream_result_Nil)

lemma scan_back_lines:
  assumes T: "T [] = []"
  shows "0 \<le> pos \<Longrightarrow> pos \<le> int (length b) \<Longrightarrow>
    scan_back F G T m st b now pos found =
      stream_result F G m st now (spec_json_payloads G T (rev (splitLines (take (nat pos) b)))) found"
proof (induction "nat pos" arbitrary: pos found rule: less_induct)
  case less
  show ?case
  proof (cases "pos = 0")
    case True
    have "spec_json_payloads G T [[]] = []"
      by (simp add: spec_json_payloads_def List.map_filter_simps data_payload_def T HasPrefix_def)
    with True show ?thesis
      by (simp add: scan_back_done del: scan_back.simps)
  next
    case False
    with less.prems have pos: "0 < pos" by simp
    define s where "s = take (nat pos) b"
    have s0: "slice b 0 pos = s"
      by (simp add: slice_def s_def)
    define L where "L = LastIndexByte s newline"
    define lineStart where "lineStart = (if L = - 1 then 0 else L + 1)"
    define rest where "rest = (if L = - 1 then [] else rev (splitLines (take (nat L) b)))"
    have lines: "rev (splitLines s) = slice b lineStart pos # rest"
    proof (cases "L = - 1")
      case True
      then have "newline \<notin> set s"
        by (simp add: L_def LastIndexByte_none)
      then show ?thesis
        using True by (simp add: splitLines_no_newline rest_def lineStart_def s0)
    next
      case False
      from LastIndexByte_split [of s newline] False obtain i where
        i: "L = int i" "i < length s" "s = take i s @ newline # drop (Suc i) s"
           "newline \<notin> set (drop (Suc i) s)"
        by (auto simp: L_def)
      have "splitLines s = splitLines (take i s) @ [drop (Suc i) s]"
        using splitLines_append [OF i(4), of "take i s"] i(3) by simp
      moreover have "take i s = take i b"
        using i(2) by (auto simp add: s_def min_def split: if_splits)
      moreover have "slice b lineStart pos = drop (Suc i) s"
        using False i(1) by (simp add: slice_def lineStart_def s_def nat_add_distrib)
      ultimately show ?thesis
        using False i(1) by (simp add: rest_def)
    qed
    have rec: "scan_back F G T m st b now (lineStart - 1) f =
        stream_result F G m st now (spec_json_payloads G T rest) f" for f
    proof (cases "L = - 1")
      case True
      then show ?thesis
        by (simp add: lineStart_def rest_def scan_back_done)
    next
      case False
      have "- 1 \<le> L" "L < int (length s)"
        using LastIndexByte_bounds [of s newline] by (simp_all add: L_def)
      with False have "0 \<le> L" "L < pos" "L \<le> int (length b)"
        using pos less.prems by (simp_all add: s_def)
      then have "scan_back F G T m st b now L f =
          stream_result F G m st now (spec_json_payloads G T (rev (splitLines (take (nat L) b)))) f"
        using pos by (intro less.hyps) simp_all
      with False show ?thesis
        by (simp add: lineStart_def rest_def)
    qed
    have "scan_back F G T m st b now pos found =
        stream_result F G m st now (spec_json_payloads G T (slice b lineStart pos # rest)) found"
      apply (subst scan_back.simps)
      apply (subst stream_result_Cons)
      using pos
      apply (simp only: s0 L_def [symmetric] lineStart_def [symmetric] Let_def rec if_True)
      done
    then show ?thesis
      by (simp add: lines [symmetric] s_def)
  qed
qed

subsection \<open>The body copier\<close>

lemma Write_healthy:
  assumes "rw_broken (ResponseWriter w) = None"
  shows "\<exists>w'. Write w now b = (w', int (length b), None)
     \<and> rw_broken (ResponseWriter w') = None
     \<and> rw_sent (ResponseWriter w') = rw_sent (ResponseWriter w) @ b
     \<and> body w' = body w @ b"
  using assms by (simp add: Write_def tee_Write_def rw_Write_def Let_def)

text \<open>
  C8, as the code has it. Every write through the copier hands its bytes unchanged to the
  response writer and, the connection being healthy, appends all of them to the capture: after any
  sequence of writes both the bytes sent and the bytes captured have grown by exactly the bytes
  written, and each write reports their full length. The capture has no maximum size.
\<close>

theorem copier_forwards_and_captures:
  assumes "rw_broken (ResponseWriter w) = None"
  shows "rw_sent (ResponseWriter (Write_seq w bs)) = rw_sent (ResponseWriter w) @ concat (map snd bs)
       \<and> body (Write_seq w bs) = body w @ concat (map snd bs)
       \<and> (\<forall>now b. snd (Write w now b) = (int (length b), None))"
proof -
  have "rw_broken (ResponseWriter (Write_seq w bs)) = None
      \<and> rw_sent (ResponseWriter (Write_seq w bs)) = rw_sent (ResponseWriter w) @ concat (map snd bs)
      \<and> body (Write_seq w bs) = body w @ concat (map snd bs)"
    using assms
  proof (induction bs arbitrary: w)
    case Nil
    then show ?case by simp
  next
    case (Cons x bs)
    obtain now b where x: "x = (now, b)" by (cases x)
    from Write_healthy [OF Cons.prems, of now b] obtain w' where
      w': "Write w now b = (w', int (length b), None)" "rw_broken (ResponseWriter w') = None"
        "rw_sent (ResponseWriter w') = rw_sent (ResponseWriter w) @ b" "body w' = body w @ b"
      by blast
    from Cons.IH [OF w'(2)] w' x show ?case
      by simp
  qed
  moreover have "snd (Write w now b) = (int (length b), None)" for now b
    using Write_healthy [OF assms, of now b] by auto
  ultimately show ?thesis by blast
qed

theorem copier_forwards_and_captures_witness:
  "rw_broken (ResponseWriter (newBodyCopier ex_writer 1000000000)) = None
   \<and> rw_sent (ResponseWriter (Write_seq (newBodyCopier ex_writer 1000000000)
        [(1500000000, ''data: a''), (1600000000, [newline]), (1700000000, ''data: b'')]))
       = ''data: a'' @ [newline] @ ''data: b''
   \<and> body (Write_seq (newBodyCopier ex_writer 1000000000)
        [(1500000000, ''data: a''), (1600000000, [newline]), (1700000000, ''data: b'')])
       = ''data: a'' @ [newline] @ ''data: b''"
proof -
  have h: "rw_broken (ResponseWriter (newBodyCopier ex_writer 1000000000)) = None"
    by (simp add: newBodyCopier_def ex_writer_def)
  show ?thesis
    using copier_forwards_and_captures [OF h,
        of "[(1500000000, ''data: a''), (1600000000, [newline]), (1700000000, ''data: b'')]"] h
    by (simp add: newBodyCopier_def ex_writer_def)
qed

text \<open>
  The claim C8 as it is written fails: no size caps the capture. Whatever the cap, one write of
  more bytes is captured whole.
\<close>

theorem copier_capture_cap_counterexample:
  "\<not> (\<exists>cap. \<forall>b. length (body (fst (Write (newBodyCopier ex_writer 1000000000) 1500000000 b))) \<le> cap)"
proof
  assume "\<exists>cap. \<forall>b. length (body (fst (Write (newBodyCopier ex_writer 1000000000) 1500000000 b))) \<le> cap"
  then obtain cap where
    c: "\<forall>b. length (body (fst (Write (newBodyCopier ex_writer 1000000000) 1500000000 b))) \<le> cap"
    by blast
  have "body (fst (Write (newBodyCopier ex_writer 1000000000) 1500000000 (replicate (Suc cap) CHR ''a'')))
      = replicate (Suc cap) CHR ''a''"
    by (simp add: Write_def tee_Write_def rw_Write_def Let_def newBodyCopier_def ex_writer_def)
  with c [rule_format, of "replicate (Suc cap) CHR ''a''"] show False
    by simp
qed

subsection \<open>wrapHandler\<close>

lemmas all_defs = wrapHandler_def Let_def ex_next_def set_Header_def WriteHeader_def Write_def tee_Write_def
  rw_Write_def rw_WriteHeader_def Header_def Header_Set_def Header_Get_def Status_def RequestTime_def
  newBodyCopier_def ex_writer_def ex_request_def IsZero_def HasPrefix_def

lemma ex_next_recorder:
  "\<exists>rec. ex_next code ctype payload ''m'' (newBodyCopier ex_writer 1000000000) ex_request = (rec, None)
     \<and> Status rec = (if code > 0 then code else 200) \<and> body rec = payload \<and> RequestTime rec = 1000000000
     \<and> Header_Get (Header rec) ''Content-Type'' = ctype
     \<and> rw_sent (ResponseWriter rec) = payload"
  by (simp add: all_defs)

lemma addMetrics_ok:
  assumes "0 \<le> maxMetrics mp"
  shows "\<exists>mp'. addMetrics mp tm = Inr (mp', TokenMetricsEvent (tm\<lparr>ID := nextID mp\<rparr>))"
  using assms by (simp add: addMetrics_def Let_def slice_from_def)

lemma wrapHandler_completed:
  assumes "next modelID (newBodyCopier writer t0) request = (rec, None)"
  shows "(Status rec \<noteq> 200 \<or> body rec = [] \<longrightarrow>
            (\<exists>w. wrapHandler F G TrimSpace mp modelID writer request next t0 t1
               = Inr \<lparr>ret = None, monitor = mp, response = rec, effects = [Log w]\<rparr>))
       \<and> (\<not> (200 \<le> Status rec \<and> Status rec < 300) \<or> body rec = [] \<longrightarrow>
            (\<exists>w. wrapHandler F G TrimSpace mp modelID writer request next t0 t1
               = Inr \<lparr>ret = None, monitor = mp, response = rec, effects = [Log w]\<rparr>))
       \<and> (\<forall>r. wrapHandler F G TrimSpace mp modelID writer request next t0 t1 = Inr r
               \<and> (monitor r \<noteq> mp \<or> (\<exists>ev. Emit ev \<in> set (effects r)))
             \<longrightarrow> 200 \<le> Status rec \<and> Status rec < 300 \<and> body rec \<noteq> [])"
proof -
  have A: "\<exists>w. wrapHandler F G TrimSpace mp modelID writer request next t0 t1
               = Inr \<lparr>ret = None, monitor = mp, response = rec, effects = [Log w]\<rparr>"
    if "Status rec \<noteq> 200 \<or> body rec = []"
    using that assms by (auto simp add: wrapHandler_def Let_def)
  have B: "Status rec = 200 \<and> body rec \<noteq> []"
    if "wrapHandler F G TrimSpace mp modelID writer request next t0 t1 = Inr r"
      and "monitor r \<noteq> mp \<or> (\<exists>ev. Emit ev \<in> set (effects r))" for r
  proof (rule ccontr)
    assume "\<not> (Status rec = 200 \<and> body rec \<noteq> [])"
    then obtain w where "wrapHandler F G TrimSpace mp modelID writer request next t0 t1
               = Inr \<lparr>ret = None, monitor = mp, response = rec, effects = [Log w]\<rparr>"
      using A by blast
    with that show False by auto
  qed
  show ?thesis
    using A B by (intro conjI impI allI) auto
qed

text \<open>
  C2. \<^verbatim>\<open>wrapHandler\<close> records a metric only for a completed response (the handler returned
  no error) with a 2xx status and a captured body that is not empty. If the handler returns an
  error, the monitor stays as it was. For a completed response: when the status is not 200, in
  particular when it is not 2xx, or the captured body is empty, \<^verbatim>\<open>wrapHandler\<close> returns nil,
  leaves the monitor as it was and logs exactly one warning; and whenever it has changed the
  monitor or emitted a metric, the status was 2xx and the body was not empty.
\<close>

theorem wrapHandler_skips:
  "(next modelID (newBodyCopier writer t0) request = (rec, Some err) \<longrightarrow>
      wrapHandler F G TrimSpace mp modelID writer request next t0 t1
        = Inr \<lparr>ret = Some err, monitor = mp, response = rec, effects = []\<rparr>)
   \<and> (next modelID (newBodyCopier writer t0) request = (rec, None) \<longrightarrow>
        (Status rec \<noteq> 200 \<or> body rec = [] \<longrightarrow>
            (\<exists>w. wrapHandler F G TrimSpace mp modelID writer request next t0 t1
               = Inr \<lparr>ret = None, monitor = mp, response = rec, effects = [Log w]\<rparr>))
       \<and> (\<not> (200 \<le> Status rec \<and> Status rec < 300) \<or> body rec = [] \<longrightarrow>
            (\<exists>w. wrapHandler F G TrimSpace mp modelID writer request next t0 t1
               = Inr \<lparr>ret = None, monitor = mp, response = rec, effects = [Log w]\<rparr>))
       \<and> (\<forall>r. wrapHandler F G TrimSpace mp modelID writer request next t0 t1 = Inr r
               \<and> (monitor r \<noteq> mp \<or> (\<exists>ev. Emit ev \<in> set (effects r)))
             \<longrightarrow> 200 \<le> Status rec \<and> Status rec < 300 \<and> body rec \<noteq> []))"
proof (rule conjI; rule impI)
  assume "next modelID (newBodyCopier writer t0) request = (rec, Some err)"
  then show "wrapHandler F G TrimSpace mp modelID writer request next t0 t1
        = Inr \<lparr>ret = Some err, monitor = mp, response = rec, effects = []\<rparr>"
    by (simp add: wrapHandler_def Let_def)
next
  assume n: "next modelID (newBodyCopier writer t0) request = (rec, None)"
  show "(Status rec \<noteq> 200 \<or> body rec = [] \<longrightarrow>
            (\<exists>w. wrapHandler F G TrimSpace mp modelID writer request next t0 t1
               = Inr \<lparr>ret = None, monitor = mp, response = rec, effects = [Log w]\<rparr>))
       \<and> (\<not> (200 \<le> Status rec \<and> Status rec < 300) \<or> body rec = [] \<longrightarrow>
            (\<exists>w. wrapHandler F G TrimSpace mp modelID writer request next t0 t1
               = Inr \<lparr>ret = None, monitor = mp, response = rec, effects = [Log w]\<rparr>))
       \<and> (\<forall>r. wrapHandler F G TrimSpace mp modelID writer request next t0 t1 = Inr r
               \<and> (monitor r \<noteq> mp \<or> (\<exists>ev. Emit ev \<in> set (effects r)))
             \<longrightarrow> 200 \<le> Status rec \<and> Status rec < 300 \<and> body rec \<noteq> [])"
    by (rule wrapHandler_completed [where ?next = "next", OF n])
qed

theorem wrapHandler_skips_witness:
  "(\<exists>rec w. ex_next 400 ''application/json'' ''error'' ''m'' (newBodyCopier ex_writer 1000000000) ex_request
            = (rec, None)
     \<and> Status rec = 400
     \<and> wrapHandler exact (table_gjson ex_table) trim_ascii (newMetricsMonitor 10) ''m'' ex_writer
          ex_request (ex_next 400 ''application/json'' ''error'') 1000000000 3000000000
        = Inr \<lparr>ret = None, monitor = newMetricsMonitor 10, response = rec, effects = [Log w]\<rparr>)
   \<and> (\<exists>r. wrapHandler exact (table_gjson ex_table) trim_ascii (newMetricsMonitor 10) ''m'' ex_writer
          ex_request (ex_next 200 ''application/json'' ex_payload_usage) 1000000000 3000000000 = Inr r
        \<and> ret r = None \<and> getMetrics (monitor r) = [ex_usage_metric]
        \<and> effects r = [Emit (TokenMetricsEvent ex_usage_metric)])"
proof -
  let ?ct = "''application/json''"
  from ex_next_recorder [of 400 ?ct "''error''"] obtain rec where
    n: "ex_next 400 ?ct ''error'' ''m'' (newBodyCopier ex_writer 1000000000) ex_request = (rec, None)"
    and st: "Status rec = 400"
    by auto
  from wrapHandler_skips [where ?next = "ex_next 400 ?ct ''error''" and modelID = "''m''"
      and writer = ex_writer and ?t0.0 = 1000000000 and request = ex_request and F = exact
      and G = "table_gjson ex_table" and TrimSpace = trim_ascii and mp = "newMetricsMonitor 10"
      and ?t1.0 = 3000000000 and rec = rec] n
  have "\<exists>w. wrapHandler exact (table_gjson ex_table) trim_ascii (newMetricsMonitor 10) ''m'' ex_writer
          ex_request (ex_next 400 ?ct ''error'') 1000000000 3000000000
        = Inr \<lparr>ret = None, monitor = newMetricsMonitor 10, response = rec, effects = [Log w]\<rparr>"
    using st by simp
  with n st have first: "\<exists>rec w. ex_next 400 ?ct ''error'' ''m'' (newBodyCopier ex_writer 1000000000) ex_request
            = (rec, None)
     \<and> Status rec = 400
     \<and> wrapHandler exact (table_gjson ex_table) trim_ascii (newMetricsMonitor 10) ''m'' ex_writer
          ex_request (ex_next 400 ?ct ''error'') 1000000000 3000000000
        = Inr \<lparr>ret = None, monitor = newMetricsMonitor 10, response = rec, effects = [Log w]\<rparr>"
    by blast
  from ex_next_recorder [of 200 ?ct ex_payload_usage] obtain rec' where
    n': "ex_next 200 ?ct ex_payload_usage ''m'' (newBodyCopier ex_writer 1000000000) ex_request = (rec', None)"
    and st': "Status rec' = 200" and b': "body rec' = ex_payload_usage"
    and rt': "RequestTime rec' = 1000000000"
    and h': "Header_Get (Header rec') ''Content-Type'' = ?ct"
    by auto
  have c: "\<not> Contains ?ct ''text/event-stream''"
    by (simp add: HasPrefix_def)
  have p: "parseMetrics exact (table_gjson ex_table) ''m'' 1000000000
      (Get (table_gjson ex_table) (ParseBytes (table_gjson ex_table) ex_payload_usage) ''usage'')
      (Get (table_gjson ex_table) (ParseBytes (table_gjson ex_table) ex_payload_usage) ''timings'')
      3000000000 = Inr ex_usage_metric"
    by (simp add: parseMetrics_def Let_def example_defs ex_table_def ex_usage_metric_def
        ex_payload_usage_def ex_payload_choices_def)
  have v: "ValidBytes (table_gjson ex_table) ex_payload_usage" "ex_payload_usage \<noteq> []"
    by (simp_all add: table_gjson_def ex_table_def ex_payload_usage_def ex_payload_choices_def)
  have a: "addMetrics (newMetricsMonitor 10) ex_usage_metric =
      Inr (\<lparr>metrics = [ex_usage_metric], maxMetrics = 10, nextID = 1\<rparr>, TokenMetricsEvent ex_usage_metric)"
    by (simp add: addMetrics_def newMetricsMonitor_def Let_def wrap_int_def ex_usage_metric_def)
  have "wrapHandler exact (table_gjson ex_table) trim_ascii (newMetricsMonitor 10) ''m'' ex_writer
          ex_request (ex_next 200 ?ct ex_payload_usage) 1000000000 3000000000
      = Inr \<lparr>ret = None, monitor = \<lparr>metrics = [ex_usage_metric], maxMetrics = 10, nextID = 1\<rparr>,
             response = rec', effects = [Emit (TokenMetricsEvent ex_usage_metric)]\<rparr>"
    using n' st' b' rt' h' c p v a by (simp add: wrapHandler_def Let_def)
  then show ?thesis
    using first by (simp add: getMetrics_def)
qed

subsection \<open>The event stream\<close>

lemma processStreamingResponse_spec:
  assumes "TrimSpace [] = []"
  shows "processStreamingResponse F G TrimSpace modelID st b now
       = spec_stream_metric F G TrimSpace modelID st b now"
proof -
  have "scan_back F G TrimSpace modelID st b now (int (length b)) False =
      stream_result F G modelID st now
        (spec_json_payloads G TrimSpace (rev (splitLines (take (nat (int (length b))) b)))) False"
    by (rule scan_back_lines [where T = TrimSpace, OF assms]) simp_all
  then show ?thesis
    by (simp add: processStreamingResponse_def spec_stream_metric_def stream_result_def Let_def)
qed

lemma ex_stream_metric:
  "spec_stream_metric exact (table_gjson ex_table) trim_ascii ''m'' 1000000000 ex_stream 3000000000 = Inr ex_usage_metric"
proof -
  have "splitLines ex_stream = [''data: '' @ ex_payload_choices, [], ''data: '' @ ex_payload_usage, [],
      ''data: [DONE]'', [], []]"
    by (simp add: ex_stream_def ex_payload_usage_def ex_payload_choices_def newline_def)
  moreover have "data_payload trim_ascii (''data: '' @ ex_payload_choices) = Some ex_payload_choices"
    "data_payload trim_ascii (''data: '' @ ex_payload_usage) = Some ex_payload_usage"
    "data_payload trim_ascii ''data: [DONE]'' = Some ''[DONE]''"
    "data_payload trim_ascii [] = None"
    by (simp_all add: data_payload_def trim_ascii_def ascii_space_def HasPrefix_def Let_def
        ex_payload_usage_def ex_payload_choices_def)
  ultimately have "spec_json_payloads (table_gjson ex_table) trim_ascii (rev (splitLines ex_stream))
      = [ex_payload_usage, ex_payload_choices]"
    by (simp add: spec_json_payloads_def List.map_filter_simps table_gjson_def ex_table_def
        ex_payload_usage_def ex_payload_choices_def)
  moreover have "has_usage_or_timings (table_gjson ex_table) ex_payload_usage"
    by (simp add: has_usage_or_timings_def table_gjson_def ex_table_def Get_def
        ex_payload_usage_def ex_payload_choices_def)
  moreover have "parseMetrics exact (table_gjson ex_table) ''m'' 1000000000
      (Get (table_gjson ex_table) (ParseBytes (table_gjson ex_table) ex_payload_usage) ''usage'')
      (Get (table_gjson ex_table) (ParseBytes (table_gjson ex_table) ex_payload_usage) ''timings'')
      3000000000 = Inr ex_usage_metric"
    by (simp add: parseMetrics_def Let_def example_defs ex_table_def ex_usage_metric_def
        ex_payload_usage_def ex_payload_choices_def)
  ultimately show ?thesis
    by (simp add: spec_stream_metric_def)
qed

text \<open>
  C3, as the code has it. For a completed response with status 200, a body that is not empty and
  a Content-Type that contains \<open>text/event-stream\<close>, \<^verbatim>\<open>wrapHandler\<close> records the metric of
  the specification's reading of the stream: that of the last data line whose payload is not
  \<open>[DONE]\<close>, is valid JSON and contains usage or timings; without such a line but with a valid
  JSON data line, a metric of unknown counts (no input, output or cached tokens, no rates); and
  with no valid JSON data line it records nothing and logs a warning. (\<^verbatim>\<open>bytes.TrimSpace\<close> is
  any function that leaves the empty line empty.)
\<close>

theorem wrapHandler_event_stream:
  assumes "TrimSpace [] = []"
    and "next modelID (newBodyCopier writer t0) request = (rec, None)"
    and "Status rec = 200" and "body rec \<noteq> []"
    and "Contains (Header_Get (Header rec) ''Content-Type'') ''text/event-stream''"
  shows "wrapHandler F G TrimSpace mp modelID writer request next t0 t1 =
     (case spec_stream_metric F G TrimSpace modelID (RequestTime rec) (body rec) t1 of
        Inr tm \<Rightarrow>
          (case addMetrics mp tm of
             Inl p \<Rightarrow> Inl p
           | Inr (mp', ev) \<Rightarrow> Inr \<lparr>ret = None, monitor = mp', response = rec, effects = [Emit ev]\<rparr>)
      | Inl err \<Rightarrow>
          Inr \<lparr>ret = None, monitor = mp, response = rec,
               effects = [Log (Warnf ''error processing streaming response: %v, path=%s''
                            [AErr err, AStr (URL_Path request)])]\<rparr>)
    \<and> (0 \<le> maxMetrics mp \<longrightarrow>
      (\<forall>tm. \<exists>mp'. addMetrics mp tm = Inr (mp', TokenMetricsEvent (tm\<lparr>ID := nextID mp\<rparr>))))
    \<and> (find (has_usage_or_timings G) (spec_json_payloads G TrimSpace (rev (splitLines (body rec)))) = None
       \<and> spec_json_payloads G TrimSpace (rev (splitLines (body rec))) \<noteq> [] \<longrightarrow>
      (\<exists>tm. spec_stream_metric F G TrimSpace modelID (RequestTime rec) (body rec) t1 = Inr tm
          \<and> InputTokens tm = 0 \<and> OutputTokens tm = 0 \<and> CachedTokens tm = - 1
          \<and> PromptPerSecond tm = of_int64 F (- 1) \<and> TokensPerSecond tm = of_int64 F (- 1)))"
proof (intro conjI)
  show "wrapHandler F G TrimSpace mp modelID writer request next t0 t1 =
     (case spec_stream_metric F G TrimSpace modelID (RequestTime rec) (body rec) t1 of
        Inr tm \<Rightarrow>
          (case addMetrics mp tm of
             Inl p \<Rightarrow> Inl p
           | Inr (mp', ev) \<Rightarrow> Inr \<lparr>ret = None, monitor = mp', response = rec, effects = [Emit ev]\<rparr>)
      | Inl err \<Rightarrow>
          Inr \<lparr>ret = None, monitor = mp, response = rec,
               effects = [Log (Warnf ''error processing streaming response: %v, path=%s''
                            [AErr err, AStr (URL_Path request)])]\<rparr>)"
    using assms(2-5)
    by (simp add: wrapHandler_def Let_def
        processStreamingResponse_spec [where TrimSpace = TrimSpace, OF assms(1)]
        split: sum.splits)
  show "0 \<le> maxMetrics mp \<longrightarrow>
      (\<forall>tm. \<exists>mp'. addMetrics mp tm = Inr (mp', TokenMetricsEvent (tm\<lparr>ID := nextID mp\<rparr>)))"
    using addMetrics_ok by blast
  show "find (has_usage_or_timings G) (spec_json_payloads G TrimSpace (rev (splitLines (body rec)))) = None
       \<and> spec_json_payloads G TrimSpace (rev (splitLines (body rec))) \<noteq> [] \<longrightarrow>
      (\<exists>tm. spec_stream_metric F G TrimSpace modelID (RequestTime rec) (body rec) t1 = Inr tm
          \<and> InputTokens tm = 0 \<and> OutputTokens tm = 0 \<and> CachedTokens tm = - 1
          \<and> PromptPerSecond tm = of_int64 F (- 1) \<and> TokensPerSecond tm = of_int64 F (- 1))"
    by (simp add: spec_stream_metric_def parseMetrics_def Let_def)
qed

theorem wrapHandler_event_stream_witness:
  "trim_ascii [] = []
   \<and> (\<exists>r. wrapHandler exact (table_gjson ex_table) trim_ascii (newMetricsMonitor 10) ''m'' ex_writer
            ex_request (ex_next 200 ''text/event-stream'' ex_stream) 1000000000 3000000000 = Inr r
        \<and> ret r = None \<and> getMetrics (monitor r) = [ex_usage_metric]
        \<and> effects r = [Emit (TokenMetricsEvent ex_usage_metric)])"
proof -
  let ?ct = "''text/event-stream''"
  have t: "trim_ascii [] = []"
    by (simp add: trim_ascii_def)
  from ex_next_recorder [of 200 ?ct ex_stream] obtain rec where
    n: "ex_next 200 ?ct ex_stream ''m'' (newBodyCopier ex_writer 1000000000) ex_request = (rec, None)"
    and st: "Status rec = 200" and b: "body rec = ex_stream" and rt: "RequestTime rec = 1000000000"
    and h: "Header_Get (Header rec) ''Content-Type'' = ?ct"
    by auto
  have ne: "body rec \<noteq> []"
    by (simp add: b ex_stream_def)
  have c: "Contains (Header_Get (Header rec) ''Content-Type'') ''text/event-stream''"
    by (simp add: h HasPrefix_def)
  have a: "addMetrics (newMetricsMonitor 10) ex_usage_metric =
      Inr (\<lparr>metrics = [ex_usage_metric], maxMetrics = 10, nextID = 1\<rparr>, TokenMetricsEvent ex_usage_metric)"
    by (simp add: addMetrics_def newMetricsMonitor_def Let_def wrap_int_def ex_usage_metric_def)
  show ?thesis
    using wrapHandler_event_stream [where TrimSpace = trim_ascii
        and ?next = "ex_next 200 ?ct ex_stream" and modelID = "''m''" and writer = ex_writer
        and ?t0.0 = 1000000000 and request = ex_request and F = exact
        and G = "table_gjson ex_table" and mp = "newMetricsMonitor 10" and ?t1.0 = 3000000000,
        OF t n st ne c, THEN conjunct1]
    by (simp add: t b rt ex_stream_metric a getMetrics_def)
qed

text \<open>
  The claim C3 as it is written fails for a 2xx status other than 200: the response below has
  status 201, the Content-Type \<open>text/event-stream\<close> and a data line with usage, whose metric
  the specification's reading yields, and \<^verbatim>\<open>wrapHandler\<close> records nothing and logs that it
  skipped the metrics.
\<close>

theorem wrapHandler_event_stream_counterexample:
  "\<exists>rec. ex_next 201 ''text/event-stream'' ex_stream ''m'' (newBodyCopier ex_writer 1000000000) ex_request
            = (rec, None)
     \<and> Status rec = 201 \<and> body rec = ex_stream
     \<and> Header_Get (Header rec) ''Content-Type'' = ''text/event-stream''
     \<and> spec_stream_metric exact (table_gjson ex_table) trim_ascii ''m'' (RequestTime rec) (body rec)
          3000000000 = Inr ex_usage_metric
     \<and> wrapHandler exact (table_gjson ex_table) trim_ascii (newMetricsMonitor 10) ''m'' ex_writer
          ex_request (ex_next 201 ''text/event-stream'' ex_stream) 1000000000 3000000000
        = Inr \<lparr>ret = None, monitor = newMetricsMonitor 10, response = rec,
               effects = [Log (Warnf ''metrics skipped, HTTP status=%d, path=%s, error=%s''
                 [AInt 201, AStr ''/v1/chat/completions'', AStr ex_stream])]\<rparr>"
proof -
  let ?ct = "''text/event-stream''"
  from ex_next_recorder [of 201 ?ct ex_stream] obtain rec where
    n: "ex_next 201 ?ct ex_stream ''m'' (newBodyCopier ex_writer 1000000000) ex_request = (rec, None)"
    and st: "Status rec = 201" and b: "body rec = ex_stream" and rt: "RequestTime rec = 1000000000"
    and h: "Header_Get (Header rec) ''Content-Type'' = ?ct"
    by auto
  have "wrapHandler exact (table_gjson ex_table) trim_ascii (newMetricsMonitor 10) ''m'' ex_writer
          ex_request (ex_next 201 ''text/event-stream'' ex_stream) 1000000000 3000000000
        = Inr \<lparr>ret = None, monitor = newMetricsMonitor 10, response = rec,
               effects = [Log (Warnf ''metrics skipped, HTTP status=%d, path=%s, error=%s''
                 [AInt 201, AStr ''/v1/chat/completions'', AStr ex_stream])]\<rparr>"
    using n st b by (simp add: wrapHandler_def Let_def ex_request_def)
  then show ?thesis
    using n st b rt h ex_stream_metric by auto
qed

subsection \<open>Errors of the handler and failures of the parsing\<close>

lemma wrapHandler_completed_unfold:
  assumes "next modelID (newBodyCopier writer t0) request = (rec, None)"
  shows "wrapHandler F G TrimSpace mp modelID writer request next t0 t1 =
     (if Status rec \<noteq> 200 then
        Inr \<lparr>ret = None, monitor = mp, response = rec,
             effects = [Log (Warnf ''metrics skipped, HTTP status=%d, path=%s, error=%s''
                          [AInt (Status rec), AStr (URL_Path request), AStr (body rec)])]\<rparr>
      else if body rec = [] then
        Inr \<lparr>ret = None, monitor = mp, response = rec,
             effects = [Log (Warn ''metrics skipped, empty body'')]\<rparr>
      else if Contains (Header_Get (Header rec) ''Content-Type'') ''text/event-stream'' then
        (case processStreamingResponse F G TrimSpace modelID (RequestTime rec) (body rec) t1 of
           Inl err \<Rightarrow>
             Inr \<lparr>ret = None, monitor = mp, response = rec,
                  effects = [Log (Warnf ''error processing streaming response: %v, path=%s''
                               [AErr err, AStr (URL_Path request)])]\<rparr>
         | Inr tm \<Rightarrow>
             (case addMetrics mp tm of
                Inl p \<Rightarrow> Inl p
              | Inr (mp', ev) \<Rightarrow>
                  Inr \<lparr>ret = None, monitor = mp', response = rec, effects = [Emit ev]\<rparr>))
      else if ValidBytes G (body rec) then
        (case parseMetrics F G modelID (RequestTime rec)
                (Get G (ParseBytes G (body rec)) ''usage'')
                (Get G (ParseBytes G (body rec)) ''timings'') t1 of
           Inl err \<Rightarrow>
             Inr \<lparr>ret = None, monitor = mp, response = rec,
                  effects = [Log (Warnf ''error parsing metrics: %v, path=%s''
                               [AErr err, AStr (URL_Path request)])]\<rparr>
         | Inr tm \<Rightarrow>
             (case addMetrics mp tm of
                Inl p \<Rightarrow> Inl p
              | Inr (mp', ev) \<Rightarrow>
                  Inr \<lparr>ret = None, monitor = mp', response = rec, effects = [Emit ev]\<rparr>))
      else
        Inr \<lparr>ret = None, monitor = mp, response = rec,
             effects = [Log (Warnf ''metrics skipped, invalid JSON in response body path=%s''
                          [AStr (URL_Path request)])]\<rparr>)"
  using assms by (simp add: wrapHandler_def Let_def)

lemma addMetrics_panic_negative: "addMetrics mp tm = Inl p \<Longrightarrow> maxMetrics mp < 0"
  using addMetrics_ok [of mp tm] by (cases "0 \<le> maxMetrics mp") auto

text \<open>
  C7. If the wrapped handler returns an error, \<^verbatim>\<open>wrapHandler\<close> returns that error, leaves the
  monitor as it was and logs nothing. If the wrapped handler returns nil, \<^verbatim>\<open>wrapHandler\<close>
  never returns an error. Whatever it returns is nil, with the response as the handler left it,
  and then either the monitor is as it was and exactly one warning was logged, or the metric
  parsed from the body was added to the monitor and emitted and nothing was logged. A failure
  of the metrics parsing is logged and nothing else: an event stream from which no metric can be
  read logs the error of \<^verbatim>\<open>processStreamingResponse\<close>, and a body that is not valid JSON logs
  that the metrics were skipped; in both cases the monitor is as it was and nil is returned. The
  call fails to return only in the panic of \<^verbatim>\<open>addMetrics\<close>, which needs a negative capacity:
  on a monitor of a capacity that is not negative it always returns.
\<close>

theorem wrapHandler_errors:
  "(next modelID (newBodyCopier writer t0) request = (rec, Some err) \<longrightarrow>
       wrapHandler F G TrimSpace mp modelID writer request next t0 t1
         = Inr \<lparr>ret = Some err, monitor = mp, response = rec, effects = []\<rparr>)
   \<and> (next modelID (newBodyCopier writer t0) request = (rec, None) \<longrightarrow>
       (\<forall>r. wrapHandler F G TrimSpace mp modelID writer request next t0 t1 = Inr r \<longrightarrow>
          ret r = None \<and> response r = rec
          \<and> ((monitor r = mp \<and> (\<exists>w. effects r = [Log w]))
             \<or> (\<exists>tm mp' ev.
                  (processStreamingResponse F G TrimSpace modelID (RequestTime rec) (body rec) t1 = Inr tm
                   \<or> parseMetrics F G modelID (RequestTime rec)
                        (Get G (ParseBytes G (body rec)) ''usage'')
                        (Get G (ParseBytes G (body rec)) ''timings'') t1 = Inr tm)
                  \<and> addMetrics mp tm = Inr (mp', ev)
                  \<and> monitor r = mp' \<and> effects r = [Emit ev])))
       \<and> (\<forall>e. Status rec = 200 \<and> body rec \<noteq> []
              \<and> Contains (Header_Get (Header rec) ''Content-Type'') ''text/event-stream''
              \<and> processStreamingResponse F G TrimSpace modelID (RequestTime rec) (body rec) t1 = Inl e
            \<longrightarrow> wrapHandler F G TrimSpace mp modelID writer request next t0 t1
                  = Inr \<lparr>ret = None, monitor = mp, response = rec,
                         effects = [Log (Warnf ''error processing streaming response: %v, path=%s''
                                      [AErr e, AStr (URL_Path request)])]\<rparr>)
       \<and> (Status rec = 200 \<and> body rec \<noteq> []
              \<and> \<not> Contains (Header_Get (Header rec) ''Content-Type'') ''text/event-stream''
              \<and> \<not> ValidBytes G (body rec)
            \<longrightarrow> wrapHandler F G TrimSpace mp modelID writer request next t0 t1
                  = Inr \<lparr>ret = None, monitor = mp, response = rec,
                         effects = [Log (Warnf ''metrics skipped, invalid JSON in response body path=%s''
                                      [AStr (URL_Path request)])]\<rparr>)
       \<and> (\<forall>p. wrapHandler F G TrimSpace mp modelID writer request next t0 t1 = Inl p
              \<longrightarrow> maxMetrics mp < 0)
       \<and> (0 \<le> maxMetrics mp \<longrightarrow>
            (\<exists>r. wrapHandler F G TrimSpace mp modelID writer request next t0 t1 = Inr r
                \<and> ret r = None \<and> response r = rec)))"
proof (rule conjI; rule impI)
  assume "next modelID (newBodyCopier writer t0) request = (rec, Some err)"
  then show "wrapHandler F G TrimSpace mp modelID writer request next t0 t1
         = Inr \<lparr>ret = Some err, monitor = mp, response = rec, effects = []\<rparr>"
    by (simp add: wrapHandler_def Let_def)
next
  assume n: "next modelID (newBodyCopier writer t0) request = (rec, None)"
  let ?W = "wrapHandler F G TrimSpace mp modelID writer request next t0 t1"
  note U = wrapHandler_completed_unfold [where ?next = "next" and F = F and G = G
      and TrimSpace = TrimSpace and mp = mp and ?t1.0 = t1, OF n]
  have results: "ret r = None \<and> response r = rec
          \<and> ((monitor r = mp \<and> (\<exists>w. effects r = [Log w]))
             \<or> (\<exists>tm mp' ev.
                  (processStreamingResponse F G TrimSpace modelID (RequestTime rec) (body rec) t1 = Inr tm
                   \<or> parseMetrics F G modelID (RequestTime rec)
                        (Get G (ParseBytes G (body rec)) ''usage'')
                        (Get G (ParseBytes G (body rec)) ''timings'') t1 = Inr tm)
                  \<and> addMetrics mp tm = Inr (mp', ev)
                  \<and> monitor r = mp' \<and> effects r = [Emit ev]))"
    if "?W = Inr r" for r
    using that unfolding U
    by (auto split: if_splits sum.splits prod.splits)
  have stream: "?W = Inr \<lparr>ret = None, monitor = mp, response = rec,
                         effects = [Log (Warnf ''error processing streaming response: %v, path=%s''
                                      [AErr e, AStr (URL_Path request)])]\<rparr>"
    if "Status rec = 200 \<and> body rec \<noteq> []
              \<and> Contains (Header_Get (Header rec) ''Content-Type'') ''text/event-stream''
              \<and> processStreamingResponse F G TrimSpace modelID (RequestTime rec) (body rec) t1 = Inl e"
    for e
    using that unfolding U by simp
  have invalid: "?W = Inr \<lparr>ret = None, monitor = mp, response = rec,
                         effects = [Log (Warnf ''metrics skipped, invalid JSON in response body path=%s''
                                      [AStr (URL_Path request)])]\<rparr>"
    if "Status rec = 200 \<and> body rec \<noteq> []
              \<and> \<not> Contains (Header_Get (Header rec) ''Content-Type'') ''text/event-stream''
              \<and> \<not> ValidBytes G (body rec)"
    using that unfolding U by simp
  have panics: "maxMetrics mp < 0" if "?W = Inl p" for p
    using that unfolding U
    by (auto split: if_splits sum.splits prod.splits dest: addMetrics_panic_negative)
  have returns: "\<exists>r. ?W = Inr r \<and> ret r = None \<and> response r = rec" if "0 \<le> maxMetrics mp"
  proof (cases ?W)
    case (Inl p)
    with panics that show ?thesis by fastforce
  next
    case (Inr r)
    with results show ?thesis by blast
  qed
  show "(\<forall>r. ?W = Inr r \<longrightarrow>
          ret r = None \<and> response r = rec
          \<and> ((monitor r = mp \<and> (\<exists>w. effects r = [Log w]))
             \<or> (\<exists>tm mp' ev.
                  (processStreamingResponse F G TrimSpace modelID (RequestTime rec) (body rec) t1 = Inr tm
                   \<or> parseMetrics F G modelID (RequestTime rec)
                        (Get G (ParseBytes G (body rec)) ''usage'')
                        (Get G (ParseBytes G (body rec)) ''timings'') t1 = Inr tm)
                  \<and> addMetrics mp tm = Inr (mp', ev)
                  \<and> monitor r = mp' \<and> effects r = [Emit ev])))
       \<and> (\<forall>e. Status rec = 200 \<and> body rec \<noteq> []
              \<and> Contains (Header_Get (Header rec) ''Content-Type'') ''text/event-stream''
              \<and> processStreamingResponse F G TrimSpace modelID (RequestTime rec) (body rec) t1 = Inl e
            \<longrightarrow> ?W
                  = Inr \<lparr>ret = None, monitor = mp, response = rec,
                         effects = [Log (Warnf ''error processing streaming response: %v, path=%s''
                                      [AErr e, AStr (URL_Path request)])]\<rparr>)
       \<and> (Status rec = 200 \<and> body rec \<noteq> []
              \<and> \<not> Contains (Header_Get (Header rec) ''Content-Type'') ''text/event-stream''
              \<and> \<not> ValidBytes G (body rec)
            \<longrightarrow> ?W
                  = Inr \<lparr>ret = None, monitor = mp, response = rec,
                         effects = [Log (Warnf ''metrics skipped, invalid JSON in response body path=%s''
                                      [AStr (URL_Path request)])]\<rparr>)
       \<and> (\<forall>p. ?W = Inl p \<longrightarrow> maxMetrics mp < 0)
       \<and> (0 \<le> maxMetrics mp \<longrightarrow>
            (\<exists>r. ?W = Inr r \<and> ret r = None \<and> response r = rec))"
    using results stream invalid panics returns by blast
qed

theorem wrapHandler_errors_witness:
  "wrapHandler exact (table_gjson ex_table) trim_ascii (newMetricsMonitor 10) ''m'' ex_writer
       ex_request (ex_failing_next (Error ''upstream unreachable'')) 1000000000 3000000000
     = Inr \<lparr>ret = Some (Error ''upstream unreachable''), monitor = newMetricsMonitor 10,
            response = newBodyCopier ex_writer 1000000000, effects = []\<rparr>
   \<and> (\<exists>rec. ex_next 200 ''application/json'' ''not valid json'' ''m''
            (newBodyCopier ex_writer 1000000000) ex_request = (rec, None)
        \<and> rw_sent (ResponseWriter rec) = ''not valid json''
        \<and> wrapHandler exact (table_gjson ex_table) trim_ascii (newMetricsMonitor 10) ''m'' ex_writer
             ex_request (ex_next 200 ''application/json'' ''not valid json'') 1000000000 3000000000
           = Inr \<lparr>ret = None, monitor = newMetricsMonitor 10, response = rec,
                  effects = [Log (Warnf ''metrics skipped, invalid JSON in response body path=%s''
                               [AStr ''/v1/chat/completions''])]\<rparr>)
   \<and> (\<exists>rec. ex_next 200 ''text/event-stream'' ex_stream_invalid ''m''
            (newBodyCopier ex_writer 1000000000) ex_request = (rec, None)
        \<and> rw_sent (ResponseWriter rec) = ex_stream_invalid
        \<and> wrapHandler exact (table_gjson ex_table) trim_ascii (newMetricsMonitor 10) ''m'' ex_writer
             ex_request (ex_next 200 ''text/event-stream'' ex_stream_invalid) 1000000000 3000000000
           = Inr \<lparr>ret = None, monitor = newMetricsMonitor 10, response = rec,
                  effects = [Log (Warnf ''error processing streaming response: %v, path=%s''
                               [AErr (Error ''no valid JSON data found in stream''),
                                AStr ''/v1/chat/completions''])]\<rparr>)
   \<and> (0::int) \<le> maxMetrics (newMetricsMonitor 10 :: real metricsMonitor)"
proof -
  let ?mp = "newMetricsMonitor 10 :: real metricsMonitor"
  let ?e = "Error ''upstream unreachable''"
  let ?w0 = "newBodyCopier ex_writer 1000000000"
  let ?ct = "''application/json''"
  have f: "ex_failing_next ?e ''m'' ?w0 ex_request = (?w0, Some ?e)"
    by (simp add: ex_failing_next_def)
  have first: "wrapHandler exact (table_gjson ex_table) trim_ascii ?mp ''m'' ex_writer
       ex_request (ex_failing_next ?e) 1000000000 3000000000
     = Inr \<lparr>ret = Some ?e, monitor = ?mp, response = ?w0, effects = []\<rparr>"
    using wrapHandler_errors [where ?next = "ex_failing_next ?e" and modelID = "''m''"
      and writer = ex_writer and ?t0.0 = 1000000000 and request = ex_request and rec = ?w0
      and err = ?e and F = exact and G = "table_gjson ex_table" and TrimSpace = trim_ascii
      and mp = ?mp and ?t1.0 = 3000000000] f
    by blast
  from ex_next_recorder [of 200 ?ct "''not valid json''"] obtain rec where
    n: "ex_next 200 ?ct ''not valid json'' ''m'' ?w0 ex_request = (rec, None)"
    and st: "Status rec = 200" and b: "body rec = ''not valid json''"
    and h: "Header_Get (Header rec) ''Content-Type'' = ?ct"
    and sent: "rw_sent (ResponseWriter rec) = ''not valid json''"
    by auto
  have c: "\<not> Contains (Header_Get (Header rec) ''Content-Type'') ''text/event-stream''"
    by (simp add: h HasPrefix_def)
  have v: "\<not> ValidBytes (table_gjson ex_table) (body rec)"
    by (simp add: b table_gjson_def ex_table_def ex_payload_usage_def ex_payload_choices_def)
  have ne: "body rec \<noteq> []"
    by (simp add: b)
  have "wrapHandler exact (table_gjson ex_table) trim_ascii ?mp ''m'' ex_writer
             ex_request (ex_next 200 ?ct ''not valid json'') 1000000000 3000000000
           = Inr \<lparr>ret = None, monitor = ?mp, response = rec,
                  effects = [Log (Warnf ''metrics skipped, invalid JSON in response body path=%s''
                               [AStr (URL_Path ex_request)])]\<rparr>"
    using wrapHandler_errors [where ?next = "ex_next 200 ?ct ''not valid json''"
      and modelID = "''m''" and writer = ex_writer and ?t0.0 = 1000000000 and request = ex_request
      and rec = rec and F = exact and G = "table_gjson ex_table" and TrimSpace = trim_ascii
      and mp = ?mp and ?t1.0 = 3000000000] n st ne c v
    by blast
  then have "wrapHandler exact (table_gjson ex_table) trim_ascii ?mp ''m'' ex_writer
             ex_request (ex_next 200 ?ct ''not valid json'') 1000000000 3000000000
           = Inr \<lparr>ret = None, monitor = ?mp, response = rec,
                  effects = [Log (Warnf ''metrics skipped, invalid JSON in response body path=%s''
                               [AStr ''/v1/chat/completions''])]\<rparr>"
    by (simp add: ex_request_def)
  then have second: "\<exists>rec. ex_next 200 ?ct ''not valid json'' ''m'' ?w0 ex_request = (rec, None)
        \<and> rw_sent (ResponseWriter rec) = ''not valid json''
        \<and> wrapHandler exact (table_gjson ex_table) trim_ascii ?mp ''m'' ex_writer
             ex_request (ex_next 200 ?ct ''not valid json'') 1000000000 3000000000
           = Inr \<lparr>ret = None, monitor = ?mp, response = rec,
                  effects = [Log (Warnf ''metrics skipped, invalid JSON in response body path=%s''
                               [AStr ''/v1/chat/completions''])]\<rparr>"
    using n sent by blast
  let ?es = "''text/event-stream''"
  from ex_next_recorder [of 200 ?es ex_stream_invalid] obtain rec' where
    n': "ex_next 200 ?es ex_stream_invalid ''m'' ?w0 ex_request = (rec', None)"
    and st': "Status rec' = 200" and b': "body rec' = ex_stream_invalid"
    and rt': "RequestTime rec' = 1000000000"
    and h': "Header_Get (Header rec') ''Content-Type'' = ?es"
    and sent': "rw_sent (ResponseWriter rec') = ex_stream_invalid"
    by auto
  have c': "Contains (Header_Get (Header rec') ''Content-Type'') ''text/event-stream''"
    by (simp add: h' HasPrefix_def)
  have ne': "body rec' \<noteq> []"
    by (simp add: b' ex_stream_invalid_def)
  have t: "trim_ascii [] = []"
    by (simp add: trim_ascii_def)
  have "splitLines ex_stream_invalid = [''data: not json'', [], ''data: [DONE]'', [], []]"
    by (simp add: ex_stream_invalid_def newline_def)
  moreover have "data_payload trim_ascii ''data: not json'' = Some ''not json''"
    "data_payload trim_ascii ''data: [DONE]'' = Some ''[DONE]''"
    "data_payload trim_ascii [] = None"
    by (simp_all add: data_payload_def trim_ascii_def ascii_space_def HasPrefix_def Let_def)
  ultimately have "spec_json_payloads (table_gjson ex_table) trim_ascii (rev (splitLines ex_stream_invalid)) = []"
    by (simp add: spec_json_payloads_def List.map_filter_simps table_gjson_def ex_table_def
        ex_payload_usage_def ex_payload_choices_def)
  then have "spec_stream_metric exact (table_gjson ex_table) trim_ascii ''m'' 1000000000
      ex_stream_invalid 3000000000 = Inl (Error ''no valid JSON data found in stream'')"
    by (simp add: spec_stream_metric_def)
  then have pe: "processStreamingResponse exact (table_gjson ex_table) trim_ascii ''m''
      (RequestTime rec') (body rec') 3000000000 = Inl (Error ''no valid JSON data found in stream'')"
    by (simp add: processStreamingResponse_spec [where TrimSpace = trim_ascii, OF t] rt' b')
  have "wrapHandler exact (table_gjson ex_table) trim_ascii ?mp ''m'' ex_writer
             ex_request (ex_next 200 ?es ex_stream_invalid) 1000000000 3000000000
           = Inr \<lparr>ret = None, monitor = ?mp, response = rec',
                  effects = [Log (Warnf ''error processing streaming response: %v, path=%s''
                               [AErr (Error ''no valid JSON data found in stream''),
                                AStr (URL_Path ex_request)])]\<rparr>"
    using wrapHandler_errors [where ?next = "ex_next 200 ?es ex_stream_invalid"
      and modelID = "''m''" and writer = ex_writer and ?t0.0 = 1000000000 and request = ex_request
      and rec = rec' and F = exact and G = "table_gjson ex_table" and TrimSpace = trim_ascii
      and mp = ?mp and ?t1.0 = 3000000000] n' st' ne' c' pe
    by blast
  then have third: "\<exists>rec. ex_next 200 ?es ex_stream_invalid ''m'' ?w0 ex_request = (rec, None)
        \<and> rw_sent (ResponseWriter rec) = ex_stream_invalid
        \<and> wrapHandler exact (table_gjson ex_table) trim_ascii ?mp ''m'' ex_writer
             ex_request (ex_next 200 ?es ex_stream_invalid) 1000000000 3000000000
           = Inr \<lparr>ret = None, monitor = ?mp, response = rec,
                  effects = [Log (Warnf ''error processing streaming response: %v, path=%s''
                               [AErr (Error ''no valid JSON data found in stream''),
                                AStr ''/v1/chat/completions''])]\<rparr>"
    using n' sent' by (auto simp add: ex_request_def)
  have m: "(0::int) \<le> maxMetrics ?mp"
    by (simp add: newMetricsMonitor_def)
  show ?thesis
    using first second third m by blast
qed

subsection \<open>The TTL monitor\<close>

lemma unload_loop_no_sleep: "CallSleep \<notin> set (unload_loop pid config d ticks)"
  by (induction ticks) auto

lemma unload_loop_waiting:
  "\<forall>t \<in> set pre. keeps_waiting d t \<Longrightarrow>
     unload_loop pid config d (pre @ rest) = unload_loop pid config d rest"
  by (induction pre) (auto simp: keeps_waiting_def)

text \<open>
  C9. Whatever the configuration (with or without sleep endpoints) and whatever the goroutine
  reads at its ticks, it never calls Sleep. And when the TTL is positive, at the first tick at
  which it finds the process ready, with no request in flight and idle for longer than the TTL
  (having found it ready, and busy or within the TTL, at every tick before), it logs the unload
  and calls Stop, and does nothing after.
\<close>

theorem unload_monitor_stops:
  "CallSleep \<notin> set (unload_monitor pid config ticks)
   \<and> (0 < UnloadAfter config \<and> UnloadAfter config * Second < 2 ^ 63
        \<and> (\<forall>t \<in> set pre. keeps_waiting (UnloadAfter config * Second) t)
        \<and> CurrentState t = StateReady \<and> inFlightRequestsCount t = 0
        \<and> sinceLastRequestHandled t > UnloadAfter config * Second
      \<longrightarrow> unload_monitor pid config (pre @ t # post) =
            [Infof ''<%s> Unloading model, TTL of %ds reached'' [AStr pid, AInt (UnloadAfter config)],
             CallStop])"
proof (intro conjI impI)
  show "CallSleep \<notin> set (unload_monitor pid config ticks)"
    by (simp add: unload_monitor_def Let_def unload_loop_no_sleep)
next
  assume a: "0 < UnloadAfter config \<and> UnloadAfter config * Second < 2 ^ 63
        \<and> (\<forall>t \<in> set pre. keeps_waiting (UnloadAfter config * Second) t)
        \<and> CurrentState t = StateReady \<and> inFlightRequestsCount t = 0
        \<and> sinceLastRequestHandled t > UnloadAfter config * Second"
  then have "0 \<le> UnloadAfter config * Second"
    by (simp add: Second_def)
  with a have w: "wrap_int (UnloadAfter config * Second) = UnloadAfter config * Second"
    by (intro wrap_int_id) simp_all
  show "unload_monitor pid config (pre @ t # post) =
            [Infof ''<%s> Unloading model, TTL of %ds reached'' [AStr pid, AInt (UnloadAfter config)],
             CallStop]"
    using a by (simp add: unload_monitor_def Let_def w unload_loop_waiting)
qed

theorem unload_monitor_stops_witness:
  "SleepEndpoint ex_config \<noteq> [] \<and> WakeEndpoint ex_config \<noteq> []
   \<and> unload_monitor ''model1'' ex_config ex_ticks =
        [Infof ''<%s> Unloading model, TTL of %ds reached'' [AStr ''model1'', AInt 2], CallStop]
   \<and> CallSleep \<notin> set (unload_monitor ''model1'' ex_config ex_ticks)"
proof -
  let ?t = "\<lparr>CurrentState = StateReady, inFlightRequestsCount = 0, sinceLastRequestHandled = 3000000000\<rparr>"
  let ?pre = "[\<lparr>CurrentState = StateReady, inFlightRequestsCount = 1, sinceLastRequestHandled = 5000000000\<rparr>,
      \<lparr>CurrentState = StateReady, inFlightRequestsCount = 0, sinceLastRequestHandled = 1000000000\<rparr>]"
  let ?post = "[\<lparr>CurrentState = StateStopped, inFlightRequestsCount = 0, sinceLastRequestHandled = 4000000000\<rparr>]"
  have u: "UnloadAfter ex_config = 2"
    by (simp add: ex_config_def rawModelConfig_defaults_def)
  have e: "ex_ticks = ?pre @ ?t # ?post"
    by (simp add: ex_ticks_def)
  have h: "0 < UnloadAfter ex_config \<and> UnloadAfter ex_config * Second < 2 ^ 63
        \<and> (\<forall>t \<in> set ?pre. keeps_waiting (UnloadAfter ex_config * Second) t)
        \<and> CurrentState ?t = StateReady \<and> inFlightRequestsCount ?t = 0
        \<and> sinceLastRequestHandled ?t > UnloadAfter ex_config * Second"
    by (simp add: u Second_def keeps_waiting_def)
  from unload_monitor_stops [of "''model1''" ex_config ex_ticks ?pre ?t ?post] h
  have "CallSleep \<notin> set (unload_monitor ''model1'' ex_config ex_ticks)"
    and "unload_monitor ''model1'' ex_config (?pre @ ?t # ?post) =
      [Infof ''<%s> Unloading model, TTL of %ds reached'' [AStr ''model1'', AInt (UnloadAfter ex_config)],
       CallStop]"
    by blast+
  then show ?thesis
    by (simp add: e u) (simp add: ex_config_def rawModelConfig_defaults_def)
qed

subsection \<open>The model configuration\<close>

text \<open>
  C10. When the YAML decodes, \<^verbatim>\<open>UnmarshalYAML\<close> returns the error that names the missing
  endpoint whenever exactly one of sleepEndpoint and wakeEndpoint is not empty. When both are set
  or neither is, it returns neither of these two errors: its result is that of the validation of
  the methods, nil when they are valid.
\<close>

theorem UnmarshalYAML_endpoints:
  assumes "unmarshal (rawModelConfig_defaults goos zero) = Inr raw"
  shows "(SleepEndpoint raw \<noteq> [] \<and> WakeEndpoint raw = [] \<longrightarrow>
            snd (UnmarshalYAML goos ToUpper zero m unmarshal)
              = Some (Error ''wakeEndpoint required when sleepEndpoint is configured''))
       \<and> (WakeEndpoint raw \<noteq> [] \<and> SleepEndpoint raw = [] \<longrightarrow>
            snd (UnmarshalYAML goos ToUpper zero m unmarshal)
              = Some (Error ''sleepEndpoint required when wakeEndpoint is configured''))
       \<and> ((SleepEndpoint raw \<noteq> []) = (WakeEndpoint raw \<noteq> []) \<longrightarrow>
            snd (UnmarshalYAML goos ToUpper zero m unmarshal)
              \<noteq> Some (Error ''wakeEndpoint required when sleepEndpoint is configured'')
            \<and> snd (UnmarshalYAML goos ToUpper zero m unmarshal)
              \<noteq> Some (Error ''sleepEndpoint required when wakeEndpoint is configured'')
            \<and> snd (UnmarshalYAML goos ToUpper zero m unmarshal) =
                (let sleepMethod = (if SleepEndpoint raw \<noteq> [] \<and> SleepMethod raw = []
                                    then ''POST'' else SleepMethod raw);
                     wakeMethod = (if WakeEndpoint raw \<noteq> [] \<and> WakeMethod raw = []
                                   then ''POST'' else WakeMethod raw)
                 in if sleepMethod \<noteq> [] \<and> \<not> validMethods (ToUpper sleepMethod) then
                      Some (Error (''invalid sleepMethod: '' @ sleepMethod
                                    @ '' (must be GET, POST, PUT, or PATCH)''))
                    else if wakeMethod \<noteq> [] \<and> \<not> validMethods (ToUpper wakeMethod) then
                      Some (Error (''invalid wakeMethod: '' @ wakeMethod
                                    @ '' (must be GET, POST, PUT, or PATCH)''))
                    else None))"
  using assms by (auto simp add: UnmarshalYAML_def Let_def)

theorem UnmarshalYAML_endpoints_witness:
  "snd (UnmarshalYAML ''linux'' to_upper_ascii () (rawModelConfig_defaults ''linux'' ()) ex_unmarshal_sleep_only)
     = Some (Error ''wakeEndpoint required when sleepEndpoint is configured'')
   \<and> snd (UnmarshalYAML ''linux'' to_upper_ascii () (rawModelConfig_defaults ''linux'' ()) ex_unmarshal_wake_only)
     = Some (Error ''sleepEndpoint required when wakeEndpoint is configured'')
   \<and> snd (UnmarshalYAML ''linux'' to_upper_ascii () (rawModelConfig_defaults ''linux'' ()) ex_unmarshal_both)
     = None
   \<and> snd (UnmarshalYAML ''linux'' to_upper_ascii () (rawModelConfig_defaults ''linux'' ()) ex_unmarshal_neither)
     = None"
proof -
  let ?d = "rawModelConfig_defaults ''linux'' () :: ModelConfig"
  have u: "to_upper_ascii ''POST'' = ''POST''" "to_upper_ascii ''get'' = ''GET''"
    by (simp_all add: to_upper_ascii_def Let_def)
  have a: "ex_unmarshal_sleep_only ?d = Inr (?d\<lparr>SleepEndpoint := ''/sleep''\<rparr>)"
    by (simp add: ex_unmarshal_sleep_only_def)
  have b: "ex_unmarshal_wake_only ?d = Inr (?d\<lparr>WakeEndpoint := ''/wake_up''\<rparr>)"
    by (simp add: ex_unmarshal_wake_only_def)
  have c: "ex_unmarshal_both ?d =
      Inr (?d\<lparr>SleepEndpoint := ''/sleep'', WakeEndpoint := ''/wake_up'', WakeMethod := ''get''\<rparr>)"
    by (simp add: ex_unmarshal_both_def)
  have d: "ex_unmarshal_neither ?d = Inr (?d\<lparr>Cmd := ''llama-server --port ${PORT}''\<rparr>)"
    by (simp add: ex_unmarshal_neither_def)
  have "snd (UnmarshalYAML ''linux'' to_upper_ascii () ?d ex_unmarshal_sleep_only)
     = Some (Error ''wakeEndpoint required when sleepEndpoint is configured'')"
    using UnmarshalYAML_endpoints [where unmarshal = ex_unmarshal_sleep_only and goos = "''linux''"
        and zero = "()" and ToUpper = to_upper_ascii and m = ?d, OF a]
    by (simp add: rawModelConfig_defaults_def)
  moreover have "snd (UnmarshalYAML ''linux'' to_upper_ascii () ?d ex_unmarshal_wake_only)
     = Some (Error ''sleepEndpoint required when wakeEndpoint is configured'')"
    using UnmarshalYAML_endpoints [where unmarshal = ex_unmarshal_wake_only and goos = "''linux''"
        and zero = "()" and ToUpper = to_upper_ascii and m = ?d, OF b]
    by (simp add: rawModelConfig_defaults_def)
  moreover have "snd (UnmarshalYAML ''linux'' to_upper_ascii () ?d ex_unmarshal_both) = None"
    using UnmarshalYAML_endpoints [where unmarshal = ex_unmarshal_both and goos = "''linux''"
        and zero = "()" and ToUpper = to_upper_ascii and m = ?d, OF c]
    by (simp add: rawModelConfig_defaults_def u validMethods_def)
  moreover have "snd (UnmarshalYAML ''linux'' to_upper_ascii () ?d ex_unmarshal_neither) = None"
    using UnmarshalYAML_endpoints [where unmarshal = ex_unmarshal_neither and goos = "''linux''"
        and zero = "()" and ToUpper = to_upper_ascii and m = ?d, OF d]
    by (simp add: rawModelConfig_defaults_def)
  ultimately show ?thesis
    by blast
qed

end
